theory Spec2Isabelle
  imports Complex_Main "HOL-Library.Word" "HOL-Library.AList"
begin

unbundle bit_operations_syntax

section \<open>Python values, exceptions and dictionaries\<close>

text \<open>
  A Python \<open>str\<close> is a \<open>string\<close>: each \<open>char\<close> stands for one code point below 256.
  Exceptions are values: a function that can raise returns \<open>py_error + 'a\<close>, with the
  exception (its class and its message) on the left. A function that raises before it
  mutates anything returns no new state on the left: the caller keeps the object it had.
\<close>

datatype py_error =
    ValueError string
  | TypeError string
  | OverflowError string

text \<open>
  A Python \<open>dict\<close> keeps its keys in insertion order. \<open>d[k] = v\<close> replaces the value of
  a key that is present, in place, and appends a new key at the end.
\<close>

type_synonym 'v dict = "(string \<times> 'v) list"

definition dict_set :: "'v dict \<Rightarrow> string \<Rightarrow> 'v \<Rightarrow> 'v dict" where
  "dict_set d k v = AList.update k v d"

definition dict_get :: "'v dict \<Rightarrow> string \<Rightarrow> 'v option" where
  "dict_get d k = map_of d k"

definition dict_keys :: "'v dict \<Rightarrow> string list" where
  "dict_keys d = map fst d"

text \<open>Truthiness of an optional string: \<open>None\<close> and \<open>""\<close> are false.\<close>

fun truthy :: "string option \<Rightarrow> bool" where
  "truthy None = False"
| "truthy (Some s) = (s \<noteq> [])"

section \<open>utils.py\<close>

subsection \<open>Decimal and hexadecimal numerals\<close>

text \<open>\<open>str(n)\<close> of a Python int: decimal digits, a minus sign when negative.\<close>

fun nat_digits :: "nat \<Rightarrow> string" where
  "nat_digits n =
     (if n < 10 then [char_of (48 + n)]
      else nat_digits (n div 10) @ [char_of (48 + n mod 10)])"

declare nat_digits.simps [simp del]

definition str_int :: "int \<Rightarrow> string" where
  "str_int i = (if i < 0 then CHR ''-'' # nat_digits (nat (- i)) else nat_digits (nat i))"

text \<open>
  \<open>int(s, 16)\<close> on a \<open>str\<close>: white space around the literal is skipped (the ASCII
  white space, and the two Latin-1 spaces U+0085 and U+00A0), then an optional sign, an
  optional \<open>0x\<close>/\<open>0X\<close> prefix (after which one underscore is allowed), then hexadecimal
  digits with single underscores between them. Anything else raises \<open>ValueError\<close>,
  which is \<open>None\<close> here.
\<close>

definition is_space :: "char \<Rightarrow> bool" where
  "is_space c = (let n = (of_char c :: nat) in (9 \<le> n \<and> n \<le> 13) \<or> n = 32 \<or> n = 133 \<or> n = 160)"

definition digit16 :: "char \<Rightarrow> int option" where
  "digit16 c =
     (let n = (of_char c :: nat) in
      if 48 \<le> n \<and> n \<le> 57 then Some (int n - 48)
      else if 97 \<le> n \<and> n \<le> 102 then Some (int n - 87)
      else if 65 \<le> n \<and> n \<le> 70 then Some (int n - 55)
      else None)"

fun hex_body :: "int \<Rightarrow> string \<Rightarrow> int option" where
  "hex_body acc [] = Some acc"
| "hex_body acc [c] =
     (case digit16 c of None \<Rightarrow> None | Some v \<Rightarrow> Some (16 * acc + v))"
| "hex_body acc (c # d # ds) =
     (if c = CHR ''_''
      then (case digit16 d of None \<Rightarrow> None | Some v \<Rightarrow> hex_body (16 * acc + v) ds)
      else (case digit16 c of None \<Rightarrow> None | Some v \<Rightarrow> hex_body (16 * acc + v) (d # ds)))"

definition strip_spaces :: "string \<Rightarrow> string" where
  "strip_spaces s = rev (dropWhile is_space (rev (dropWhile is_space s)))"

definition py_int16 :: "string \<Rightarrow> int option" where
  "py_int16 s =
     (let s1 = strip_spaces s;
          neg = (case s1 of c # _ \<Rightarrow> c = CHR ''-'' | [] \<Rightarrow> False);
          s2 = (case s1 of c # cs \<Rightarrow> if c = CHR ''+'' \<or> c = CHR ''-'' then cs else s1 | [] \<Rightarrow> s1);
          s3 = (case s2 of
                  c # x # cs \<Rightarrow>
                    if c = CHR ''0'' \<and> (x = CHR ''x'' \<or> x = CHR ''X'')
                    then (case cs of u # us \<Rightarrow> if u = CHR ''_'' then us else cs | [] \<Rightarrow> cs)
                    else s2
                | _ \<Rightarrow> s2)
      in case s3 of
           [] \<Rightarrow> None
         | c # cs \<Rightarrow>
             (case digit16 c of
                None \<Rightarrow> None
              | Some v \<Rightarrow> map_option (\<lambda>n. if neg then - n else n) (hex_body v cs)))"

subsection \<open>\<open>rgb_color\<close> and \<open>hex_to_rgb\<close>\<close>

text \<open>
  \<open>rgb_color\<close> takes Python ints (the \<open>isinstance\<close> test is the type \<open>int\<close> here),
  checks the range of each and formats them.
\<close>

definition rgb_color :: "int \<Rightarrow> int \<Rightarrow> int \<Rightarrow> py_error + string" where
  "rgb_color r g b =
     (if \<not> list_all (\<lambda>val. 0 \<le> val \<and> val \<le> 255) [r, g, b]
      then Inl (ValueError ''RGB values must be between 0 and 255'')
      else Inr (''rgb('' @ str_int r @ '', '' @ str_int g @ '', '' @ str_int b @ '')''))"

text \<open>\<open>str.lstrip(chars)\<close> with a one-character set.\<close>

definition lstrip :: "char \<Rightarrow> string \<Rightarrow> string" where
  "lstrip c s = dropWhile (\<lambda>x. x = c) s"

text \<open>The slice \<open>s[i:j]\<close> for \<open>0 \<le> i \<le> j\<close>: it never raises, it is cut at the end of \<open>s\<close>.\<close>

definition slice :: "string \<Rightarrow> nat \<Rightarrow> nat \<Rightarrow> string" where
  "slice s i j = take (j - i) (drop i s)"

text \<open>
  \<open>repr(s)\<close> of a \<open>str\<close> of code points below 256. The quotes are single, or double
  when the string holds a single quote and no double quote. A backslash, the quote
  used, tab, newline and carriage return are escaped with a backslash; any other code
  point that is not printable (below 32, 127 to 160, and 173) is written \<open>\xNN\<close> with
  two lowercase hexadecimal digits.
\<close>

definition hex_digit :: "nat \<Rightarrow> char" where
  "hex_digit n = (if n < 10 then char_of (48 + n) else char_of (87 + n))"

definition repr_char :: "char \<Rightarrow> char \<Rightarrow> string" where
  "repr_char quote c =
     (let n = (of_char c :: nat) in
      if c = CHR 0x5C \<or> c = quote then [CHR 0x5C, c]
      else if n = 9 then [CHR 0x5C, CHR ''t'']
      else if n = 10 then [CHR 0x5C, CHR ''n'']
      else if n = 13 then [CHR 0x5C, CHR ''r'']
      else if n < 32 \<or> (127 \<le> n \<and> n \<le> 160) \<or> n = 173
      then [CHR 0x5C, CHR ''x'', hex_digit (n div 16), hex_digit (n mod 16)]
      else [c])"

definition py_repr :: "string \<Rightarrow> string" where
  "py_repr s =
     (let quote = (if CHR 0x27 \<in> set s \<and> CHR 0x22 \<notin> set s then CHR 0x22 else CHR 0x27)
      in [quote] @ concat (map (repr_char quote) s) @ [quote])"

text \<open>
  The message of the \<open>ValueError\<close> of \<open>int(s, 16)\<close>: the literal is formatted with
  \<open>%.200R\<close>, its \<open>repr\<close> cut at 200 characters.
\<close>

definition invalid_literal :: "string \<Rightarrow> py_error" where
  "invalid_literal s =
     ValueError (''invalid literal for int() with base 16: '' @ take 200 (py_repr s))"

definition int16_or_raise :: "string \<Rightarrow> py_error + int" where
  "int16_or_raise s = (case py_int16 s of None \<Rightarrow> Inl (invalid_literal s) | Some n \<Rightarrow> Inr n)"

definition hex_to_rgb :: "string \<Rightarrow> py_error + string" where
  "hex_to_rgb arg =
     (let hex_color = lstrip (CHR ''#'') arg in
      if length hex_color \<noteq> 3 \<and> length hex_color \<noteq> 6
      then Inl (ValueError ''Hex color must be 3 or 6 characters (excluding '#')'')
      else if py_int16 hex_color = None
      then Inl (ValueError (''Invalid hex color: '' @ [CHR 0x27] @ hex_color @ [CHR 0x27]
                              @ '' contains non-hex characters''))
      else
        let hex_color = (if length hex_color = 3
                         then concat (map (\<lambda>c. [c, c]) hex_color) else hex_color)
        in case int16_or_raise (slice hex_color 0 2) of
             Inl e \<Rightarrow> Inl e
           | Inr r \<Rightarrow>
               (case int16_or_raise (slice hex_color 2 4) of
                  Inl e \<Rightarrow> Inl e
                | Inr g \<Rightarrow>
                    (case int16_or_raise (slice hex_color 4 6) of
                       Inl e \<Rightarrow> Inl e
                     | Inr b \<Rightarrow> rgb_color r g b)))"

section \<open>models/relevant_date.py\<close>

text \<open>
  A \<open>RelevantDate\<close> has three attributes, each \<open>None\<close> or a string. The constructor
  tests its arguments for truthiness, so an empty string counts as absent.
\<close>

record RelevantDate =
  date :: "string option"
  startDate :: "string option"
  endDate :: "string option"

definition mutual_exclusion_error :: py_error where
  "mutual_exclusion_error = ValueError
     (''Cannot specify both 'date' and 'start_date/end_date'. '' @
      ''Use 'date' for auto-calculated interval OR 'start_date/end_date' for explicit interval.'')"

definition together_error :: py_error where
  "together_error = ValueError ''Both 'start_date' and 'end_date' must be provided together.''"

definition missing_argument_error :: py_error where
  "missing_argument_error =
     ValueError ''Must provide either 'date' or both 'start_date' and 'end_date'.''"

definition RelevantDate_init ::
  "string option \<Rightarrow> string option \<Rightarrow> string option \<Rightarrow> py_error + RelevantDate" where
  "RelevantDate_init date_arg start_date end_date =
     (if truthy date_arg \<and> (truthy start_date \<or> truthy end_date)
      then Inl mutual_exclusion_error
      else if (truthy start_date \<and> \<not> truthy end_date) \<or> (truthy end_date \<and> \<not> truthy start_date)
      then Inl together_error
      else if \<not> truthy date_arg \<and> \<not> truthy start_date
      then Inl missing_argument_error
      else Inr \<lparr>date = date_arg, startDate = start_date, endDate = end_date\<rparr>)"

section \<open>models/constants.py and models/barcodes.py\<close>

definition PDF417 :: string where "PDF417 = ''PKBarcodeFormatPDF417''"
definition QR :: string where "QR = ''PKBarcodeFormatQR''"
definition AZTEC :: string where "AZTEC = ''PKBarcodeFormatAztec''"
definition CODE128 :: string where "CODE128 = ''PKBarcodeFormatCode128''"

text \<open>
  A \<open>Barcode\<close> object. The attribute \<open>altText\<close> exists only when the constructor was
  given an \<open>alt_text\<close>: \<open>None\<close> here is the absent attribute.
\<close>

record Barcode =
  format :: string
  message :: string
  messageEncoding :: string
  altText :: "string option"

definition valid_formats :: "string list" where
  "valid_formats = [PDF417, QR, AZTEC, CODE128]"

text \<open>
  \<open>Barcode(message, format, encoding, alt_text)\<close>, the parameters in the order of the
  signature. The constructor assigns \<open>format\<close> first, then \<open>message\<close>: each setter
  validates.
\<close>

definition Barcode_init ::
  "string \<Rightarrow> string \<Rightarrow> string \<Rightarrow> string option \<Rightarrow> py_error + Barcode" where
  "Barcode_init message_arg format_arg encoding alt_text =
     (if format_arg \<notin> set valid_formats
      then Inl (ValueError (''Invalid barcode format: '' @ format_arg @ ''. Must be one of: '' @
             ''BarcodeFormat.PDF417, BarcodeFormat.QR, BarcodeFormat.AZTEC, '' @
             ''or BarcodeFormat.CODE128''))
      else if message_arg = []
      then Inl (ValueError ''Barcode message cannot be empty'')
      else Inr \<lparr>format = format_arg, message = message_arg,
                 messageEncoding = encoding, altText = alt_text\<rparr>)"

section \<open>JSON values\<close>

text \<open>
  What \<open>json_dict()\<close> methods build: dictionaries, lists, strings, numbers, booleans
  and \<open>None\<close>. A Python float is a \<open>real\<close> here (no NaN, no infinity).
\<close>

datatype json =
    JNull
  | JBool bool
  | JInt int
  | JFloat real
  | JStr string
  | JList "json list"
  | JDict "(string \<times> json) list"

definition json_opt_str :: "string option \<Rightarrow> json" where
  "json_opt_str s = (case s of None \<Rightarrow> JNull | Some x \<Rightarrow> JStr x)"

definition Barcode_json_dict :: "Barcode \<Rightarrow> json dict" where
  "Barcode_json_dict b =
     (let result = [(''format'', JStr (format b)), (''message'', JStr (message b)),
                    (''messageEncoding'', JStr (messageEncoding b))]
      in case altText b of
           None \<Rightarrow> result
         | Some a \<Rightarrow> dict_set result ''altText'' (JStr a))"

section \<open>models/locations.py\<close>

record Location =
  latitude :: real
  longitude :: real
  altitude :: "real option"
  maxDistance :: "real option"
  relevantText :: "string option"

record IBeacon =
  proximityUUID :: string
  major :: "int option"
  minor :: "int option"
  beacon_relevantText :: "string option"

text \<open>
  The values a caller can pass where the code inspects the type of its argument
  (\<open>float(...)\<close>, \<open>isinstance\<close>, \<open>is not None\<close>).
\<close>

datatype pyval =
    VNone
  | VBool bool
  | VInt int
  | VFloat real
  | VStr string
  | VList "pyval list"
  | VBarcode Barcode
  | VLocation Location
  | VIBeacon IBeacon
  | VRelevantDate RelevantDate

fun type_name :: "pyval \<Rightarrow> string" where
  "type_name VNone = ''NoneType''"
| "type_name (VBool _) = ''bool''"
| "type_name (VInt _) = ''int''"
| "type_name (VFloat _) = ''float''"
| "type_name (VStr _) = ''str''"
| "type_name (VList _) = ''list''"
| "type_name (VBarcode _) = ''Barcode''"
| "type_name (VLocation _) = ''Location''"
| "type_name (VIBeacon _) = ''IBeacon''"
| "type_name (VRelevantDate _) = ''RelevantDate''"

text \<open>
  The library functions the code calls are parameters: the interpreter's conversions of
  a string and of an int to a float (\<open>None\<close> when the string is no float literal, and
  when the int is too large), \<open>json.dumps\<close>, \<open>hashlib.sha1(...).hexdigest()\<close>, reading
  a file, and the PEM loaders and the PKCS7 signer of the \<open>cryptography\<close> package.
\<close>

type_synonym bytes = "8 word list"

record py_runtime =
  float_of_str :: "string \<Rightarrow> real option"
  float_of_int :: "int \<Rightarrow> real option"
  json_dumps :: "json \<Rightarrow> string"
  sha1_hexdigest :: "bytes \<Rightarrow> string"
  read_file_bytes :: "string \<Rightarrow> py_error + bytes"
  load_pem_x509_certificate :: "bytes \<Rightarrow> py_error + bytes"
  load_pem_private_key :: "bytes \<Rightarrow> bytes \<Rightarrow> py_error + bytes"
  pkcs7_sign :: "bytes \<Rightarrow> bytes \<Rightarrow> bytes \<Rightarrow> bytes \<Rightarrow> py_error + bytes"

text \<open>\<open>float(v)\<close>: a float is itself, a bool is 1.0 or 0.0, other types raise \<open>TypeError\<close>.\<close>

definition py_float :: "py_runtime \<Rightarrow> pyval \<Rightarrow> py_error + real" where
  "py_float rt v =
     (case v of
        VFloat x \<Rightarrow> Inr x
      | VBool b \<Rightarrow> Inr (if b then 1 else 0)
      | VInt n \<Rightarrow>
          (case float_of_int rt n of
             None \<Rightarrow> Inl (OverflowError ''int too large to convert to float'')
           | Some x \<Rightarrow> Inr x)
      | VStr s \<Rightarrow>
          (case float_of_str rt s of
             None \<Rightarrow> Inl (ValueError (''could not convert string to float: '' @ [CHR 0x27] @ s @ [CHR 0x27]))
           | Some x \<Rightarrow> Inr x)
      | _ \<Rightarrow> Inl (TypeError (''float() argument must be a string or a real number, not ''
                           @ [CHR 0x27] @ type_name v @ [CHR 0x27])))"

text \<open>
  \<open>try: x = float(v)  except (ValueError, TypeError): x = fallback\<close>. Any other
  exception of \<open>float\<close> leaves the constructor.
\<close>

definition float_or :: "py_runtime \<Rightarrow> pyval \<Rightarrow> 'a \<Rightarrow> (real \<Rightarrow> 'a) \<Rightarrow> py_error + 'a" where
  "float_or rt v fallback wrap =
     (case py_float rt v of
        Inr x \<Rightarrow> Inr (wrap x)
      | Inl (ValueError _) \<Rightarrow> Inr fallback
      | Inl (TypeError _) \<Rightarrow> Inr fallback
      | Inl e \<Rightarrow> Inl e)"

definition Location_init ::
  "py_runtime \<Rightarrow> pyval \<Rightarrow> pyval \<Rightarrow> pyval \<Rightarrow> string option \<Rightarrow> pyval \<Rightarrow> py_error + Location" where
  "Location_init rt latitude_arg longitude_arg altitude_arg relevant_text max_distance =
     (case float_or rt latitude_arg 0 id of
        Inl e \<Rightarrow> Inl e
      | Inr lat \<Rightarrow>
     (case float_or rt longitude_arg 0 id of
        Inl e \<Rightarrow> Inl e
      | Inr lon \<Rightarrow>
     (case (if altitude_arg \<noteq> VNone then float_or rt altitude_arg (Some 0) Some else Inr None) of
        Inl e \<Rightarrow> Inl e
      | Inr alt \<Rightarrow>
     (case (if max_distance \<noteq> VNone then float_or rt max_distance None Some else Inr None) of
        Inl e \<Rightarrow> Inl e
      | Inr maxd \<Rightarrow>
          Inr \<lparr>latitude = lat, longitude = lon, altitude = alt, maxDistance = maxd,
               relevantText = (if truthy relevant_text then relevant_text else None)\<rparr>))))"

definition Location_json_dict :: "Location \<Rightarrow> json dict" where
  "Location_json_dict loc =
     (let d = [(''latitude'', JFloat (latitude loc)), (''longitude'', JFloat (longitude loc))];
          d = (case altitude loc of None \<Rightarrow> d | Some a \<Rightarrow> dict_set d ''altitude'' (JFloat a));
          d = (case maxDistance loc of None \<Rightarrow> d | Some m \<Rightarrow> dict_set d ''maxDistance'' (JFloat m));
          d = (if truthy (relevantText loc)
               then dict_set d ''relevantText'' (json_opt_str (relevantText loc)) else d)
      in d)"

definition IBeacon_init :: "string \<Rightarrow> int option \<Rightarrow> int option \<Rightarrow> string option \<Rightarrow> IBeacon" where
  "IBeacon_init proximity_uuid major_arg minor_arg relevant_text =
     \<lparr>proximityUUID = proximity_uuid, major = major_arg, minor = minor_arg,
      beacon_relevantText = (if truthy relevant_text then relevant_text else None)\<rparr>"

definition IBeacon_json_dict :: "IBeacon \<Rightarrow> json dict" where
  "IBeacon_json_dict beacon =
     (let d = [(''proximityUUID'', JStr (proximityUUID beacon))];
          d = (case major beacon of None \<Rightarrow> d | Some m \<Rightarrow> dict_set d ''major'' (JInt m));
          d = (case minor beacon of None \<Rightarrow> d | Some m \<Rightarrow> dict_set d ''minor'' (JInt m));
          d = (if truthy (beacon_relevantText beacon)
               then dict_set d ''relevantText'' (json_opt_str (beacon_relevantText beacon)) else d)
      in d)"

section \<open>models/fields.py and models/pass_types.py\<close>

text \<open>
  A \<open>Field\<close> serializes its attribute dictionary, so a field is that dictionary: the
  attribute names in the order they were set, each with its value (a \<open>semantics\<close>
  object stands as what its own \<open>json_dict()\<close> returns).
\<close>

type_synonym Field = "json dict"

fun is_list :: "json \<Rightarrow> bool" where
  "is_list (JList _) = True"
| "is_list _ = False"

definition Field_json_dict :: "Field \<Rightarrow> json dict" where
  "Field_json_dict f =
     fold (\<lambda>(attr_key, attr_value) d.
             if attr_value = JNull \<or> attr_value = JStr [] then d
             else if attr_key = ''dataDetectorTypes'' \<and> is_list attr_value
             then (if attr_value = JList [] then d else dict_set d attr_key attr_value)
             else dict_set d attr_key attr_value)
          f []"

datatype pass_kind = BoardingPass string | Coupon | EventTicket | Generic | StoreCard

record PassInformation =
  kind :: pass_kind
  header_fields :: "Field list"
  primary_fields :: "Field list"
  secondary_fields :: "Field list"
  back_fields :: "Field list"
  auxiliary_fields :: "Field list"
  additional_info_fields :: "Field list"

fun jsonname :: "pass_kind \<Rightarrow> string" where
  "jsonname (BoardingPass _) = ''boardingPass''"
| "jsonname Coupon = ''coupon''"
| "jsonname EventTicket = ''eventTicket''"
| "jsonname Generic = ''generic''"
| "jsonname StoreCard = ''storeCard''"

definition set_fields :: "json dict \<Rightarrow> string \<Rightarrow> Field list \<Rightarrow> json dict" where
  "set_fields d k fs =
     (if fs = [] then d else dict_set d k (JList (map (\<lambda>f. JDict (Field_json_dict f)) fs)))"

definition PassInformation_json_dict :: "PassInformation \<Rightarrow> json dict" where
  "PassInformation_json_dict info =
     (let d = [];
          d = set_fields d ''headerFields'' (header_fields info);
          d = set_fields d ''primaryFields'' (primary_fields info);
          d = set_fields d ''secondaryFields'' (secondary_fields info);
          d = set_fields d ''backFields'' (back_fields info);
          d = set_fields d ''auxiliaryFields'' (auxiliary_fields info);
          d = set_fields d ''additionalInfoFields'' (additional_info_fields info)
      in case kind info of
           BoardingPass transit_type \<Rightarrow> dict_set d ''transitType'' (JStr transit_type)
         | _ \<Rightarrow> d)"

section \<open>models/pass_base.py: the \<open>ApplePass\<close> object\<close>

text \<open>
  The attributes of an \<open>ApplePass\<close>, with the types the class documents. An optional
  attribute is \<open>None\<close> until it is set. The objects held by \<open>nfc\<close>, \<open>semantics\<close>,
  \<open>personalization\<close> and \<open>upcoming_event_info\<close> are used through their \<open>json_dict()\<close>
  only: each stands as the dictionary that method returns. The four internal lists and
  the two internal dictionaries carry the prefix \<open>priv\<close> for the leading underscore of
  the source.
\<close>

record ApplePass =
  priv_files :: "bytes dict"
  priv_hashes :: "string dict"
  pass_type_identifier :: string
  organization_name :: string
  team_identifier :: string
  serial_number :: string
  description :: string
  format_version :: int
  background_color :: "string option"
  foreground_color :: "string option"
  label_color :: "string option"
  logo_text :: "string option"
  suppress_strip_shine :: bool
  priv_barcodes :: "Barcode list"
  web_service_url :: "string option"
  authentication_token :: "string option"
  priv_locations :: "Location list"
  priv_beacons :: "IBeacon list"
  priv_relevant_dates :: "RelevantDate list"
  nfc :: "json dict option"
  semantics :: "json dict option"
  personalization :: "json dict option"
  grouping_identifier :: "string option"
  sharing_prohibited :: "bool option"
  upcoming_event_info :: "json dict list option"
  associated_store_identifiers :: "int list option"
  app_launch_url :: "string option"
  expiration_date :: "string option"
  voided :: "bool option"
  user_info :: "json dict option"
  pass_information :: PassInformation

definition ApplePass_init :: "PassInformation \<Rightarrow> string \<Rightarrow> string \<Rightarrow> string \<Rightarrow> ApplePass" where
  "ApplePass_init pass_information_arg pass_type_identifier_arg organization_name_arg
       team_identifier_arg =
     \<lparr>priv_files = [], priv_hashes = [],
      pass_type_identifier = pass_type_identifier_arg,
      organization_name = organization_name_arg,
      team_identifier = team_identifier_arg,
      serial_number = [], description = [], format_version = 1,
      background_color = None, foreground_color = None, label_color = None, logo_text = None,
      suppress_strip_shine = False,
      priv_barcodes = [],
      web_service_url = None, authentication_token = None,
      priv_locations = [], priv_beacons = [], priv_relevant_dates = [],
      nfc = None, semantics = None, personalization = None,
      grouping_identifier = None, sharing_prohibited = None, upcoming_event_info = None,
      associated_store_identifiers = None, app_launch_url = None,
      expiration_date = None, voided = None, user_info = None,
      pass_information = pass_information_arg\<rparr>"

subsection \<open>The add operations\<close>

definition add_barcode :: "pyval \<Rightarrow> ApplePass \<Rightarrow> py_error + ApplePass" where
  "add_barcode barcode p =
     (case barcode of
        VBarcode b \<Rightarrow> Inr (p\<lparr>priv_barcodes := priv_barcodes p @ [b]\<rparr>)
      | _ \<Rightarrow> Inl (TypeError (''barcode must be a Barcode instance, got '' @ type_name barcode)))"

definition add_location :: "pyval \<Rightarrow> ApplePass \<Rightarrow> py_error + ApplePass" where
  "add_location location p =
     (case location of
        VLocation l \<Rightarrow>
          if length (priv_locations p) \<ge> 10
          then Inl (ValueError ''Maximum 10 locations allowed per pass'')
          else Inr (p\<lparr>priv_locations := priv_locations p @ [l]\<rparr>)
      | _ \<Rightarrow> Inl (TypeError (''location must be a Location instance, got '' @ type_name location)))"

definition add_beacon :: "pyval \<Rightarrow> ApplePass \<Rightarrow> py_error + ApplePass" where
  "add_beacon beacon p =
     (case beacon of
        VIBeacon b \<Rightarrow>
          if length (priv_beacons p) \<ge> 10
          then Inl (ValueError ''Maximum 10 beacons allowed per pass'')
          else Inr (p\<lparr>priv_beacons := priv_beacons p @ [b]\<rparr>)
      | _ \<Rightarrow> Inl (TypeError (''beacon must be an IBeacon instance, got '' @ type_name beacon)))"

definition add_relevant_date :: "pyval \<Rightarrow> ApplePass \<Rightarrow> py_error + ApplePass" where
  "add_relevant_date date_arg p =
     (case date_arg of
        VStr s \<Rightarrow>
          (case RelevantDate_init (Some s) None None of
             Inl e \<Rightarrow> Inl e
           | Inr rd \<Rightarrow> Inr (p\<lparr>priv_relevant_dates := priv_relevant_dates p @ [rd]\<rparr>))
      | VRelevantDate rd \<Rightarrow> Inr (p\<lparr>priv_relevant_dates := priv_relevant_dates p @ [rd]\<rparr>)
      | _ \<Rightarrow> Inl (TypeError (''date must be a RelevantDate instance or string, got ''
                           @ type_name date_arg)))"

text \<open>\<open>add_file(name, fd)\<close>: \<open>fd.read()\<close> is the byte string given.\<close>

definition add_file :: "string \<Rightarrow> bytes \<Rightarrow> ApplePass \<Rightarrow> ApplePass" where
  "add_file name data p = p\<lparr>priv_files := dict_set (priv_files p) name data\<rparr>"

subsection \<open>\<open>json_dict\<close>\<close>

text \<open>
  \<open>json_dict\<close> builds one dictionary, section by section, in the order of the source.
  Truthiness decides what is emitted: an empty string, an empty list, an empty
  dictionary, \<open>False\<close> and \<open>None\<close> are false, an object is true.
\<close>

definition required_fields :: "ApplePass \<Rightarrow> json dict" where
  "required_fields p =
     (let d = [];
          d = dict_set d ''description'' (JStr (description p));
          d = dict_set d ''formatVersion'' (JInt (format_version p));
          d = dict_set d ''organizationName'' (JStr (organization_name p));
          d = dict_set d ''passTypeIdentifier'' (JStr (pass_type_identifier p));
          d = dict_set d ''serialNumber'' (JStr (serial_number p));
          d = dict_set d ''teamIdentifier'' (JStr (team_identifier p));
          d = dict_set d ''suppressStripShine'' (JBool (suppress_strip_shine p));
          d = dict_set d (jsonname (kind (pass_information p)))
                (JDict (PassInformation_json_dict (pass_information p)))
      in d)"

definition legacy_formats :: "string list" where
  "legacy_formats = [PDF417, QR, AZTEC]"

text \<open>
  The legacy barcode of a first barcode whose format is not a legacy one is built by
  the call \<open>Barcode(first_barcode.message, BarcodeFormat.PDF417,
  getattr(first_barcode, 'altText', ''), first_barcode.messageEncoding)\<close>: four
  positional arguments, bound to \<open>message\<close>, \<open>format\<close>, \<open>encoding\<close> and \<open>alt_text\<close>
  in that order.
\<close>

definition barcodes_section :: "ApplePass \<Rightarrow> json dict \<Rightarrow> py_error + json dict" where
  "barcodes_section p d =
     (case priv_barcodes p of
        [] \<Rightarrow> Inr d
      | first_barcode # _ \<Rightarrow>
          let d = dict_set d ''barcodes''
                    (JList (map (\<lambda>b. JDict (Barcode_json_dict b)) (priv_barcodes p)))
          in if format first_barcode \<in> set legacy_formats
             then Inr (dict_set d ''barcode'' (JDict (Barcode_json_dict first_barcode)))
             else (case Barcode_init (message first_barcode) PDF417
                          (case altText first_barcode of None \<Rightarrow> [] | Some a \<Rightarrow> a)
                          (Some (messageEncoding first_barcode)) of
                     Inl e \<Rightarrow> Inl e
                   | Inr legacy_barcode \<Rightarrow>
                       Inr (dict_set d ''barcode'' (JDict (Barcode_json_dict legacy_barcode)))))"

definition date_entry :: "RelevantDate \<Rightarrow> json dict" where
  "date_entry date_obj =
     (let e = [];
          e = (if truthy (date date_obj)
               then dict_set e ''date'' (json_opt_str (date date_obj)) else e);
          e = (if truthy (startDate date_obj)
               then dict_set e ''startDate'' (json_opt_str (startDate date_obj)) else e);
          e = (if truthy (endDate date_obj)
               then dict_set e ''endDate'' (json_opt_str (endDate date_obj)) else e)
      in e)"

definition relevant_dates_section :: "ApplePass \<Rightarrow> json dict \<Rightarrow> json dict" where
  "relevant_dates_section p d =
     (case priv_relevant_dates p of
        [] \<Rightarrow> d
      | first_date # _ \<Rightarrow>
          let relevant_dates_array =
                filter (\<lambda>e. e \<noteq> []) (map date_entry (priv_relevant_dates p));
              d = (if relevant_dates_array \<noteq> []
                   then dict_set d ''relevantDates'' (JList (map JDict relevant_dates_array))
                   else d)
          in if truthy (date first_date)
             then dict_set d ''relevantDate'' (json_opt_str (date first_date))
             else if truthy (startDate first_date)
             then dict_set d ''relevantDate'' (json_opt_str (startDate first_date))
             else dict_set d ''relevantDate'' (json_opt_str (endDate first_date)))"

definition set_if :: "bool \<Rightarrow> string \<Rightarrow> json \<Rightarrow> json dict \<Rightarrow> json dict" where
  "set_if c k v d = (if c then dict_set d k v else d)"

definition set_str :: "string option \<Rightarrow> string \<Rightarrow> json dict \<Rightarrow> json dict" where
  "set_str s k d = set_if (truthy s) k (json_opt_str s) d"

definition relevance_sections :: "ApplePass \<Rightarrow> json dict \<Rightarrow> json dict" where
  "relevance_sections p d =
     (let d = set_if (priv_locations p \<noteq> []) ''locations''
                (JList (map (\<lambda>loc. JDict (Location_json_dict loc)) (priv_locations p))) d;
          d = set_if (priv_beacons p \<noteq> []) ''beacons''
                (JList (map (\<lambda>beacon. JDict (IBeacon_json_dict beacon)) (priv_beacons p))) d
      in d)"

text \<open>
  The content of an optional list or dictionary attribute: nothing when it is \<open>None\<close>.
  Such an attribute is truthy exactly when this content is not empty.
\<close>

definition content :: "'a list option \<Rightarrow> 'a list" where
  "content x = (case x of None \<Rightarrow> [] | Some xs \<Rightarrow> xs)"

definition json_opt_bool :: "bool option \<Rightarrow> json" where
  "json_opt_bool b = (case b of None \<Rightarrow> JNull | Some x \<Rightarrow> JBool x)"

definition web_service_section :: "ApplePass \<Rightarrow> json dict \<Rightarrow> json dict" where
  "web_service_section p d =
     (if truthy (web_service_url p)
      then dict_set (dict_set d ''webServiceURL'' (json_opt_str (web_service_url p)))
             ''authenticationToken'' (json_opt_str (authentication_token p))
      else d)"

definition optional_sections :: "ApplePass \<Rightarrow> json dict \<Rightarrow> json dict" where
  "optional_sections p d =
     (let d = set_str (background_color p) ''backgroundColor'' d;
          d = set_str (foreground_color p) ''foregroundColor'' d;
          d = set_str (label_color p) ''labelColor'' d;
          d = set_str (logo_text p) ''logoText'' d;
          d = web_service_section p d;
          d = set_if (content (associated_store_identifiers p) \<noteq> []) ''associatedStoreIdentifiers''
                (JList (map JInt (content (associated_store_identifiers p)))) d;
          d = set_str (app_launch_url p) ''appLaunchURL'' d;
          d = set_str (expiration_date p) ''expirationDate'' d;
          d = set_if (voided p = Some True) ''voided'' (JBool True) d;
          d = set_if (content (user_info p) \<noteq> []) ''userInfo'' (JDict (content (user_info p))) d;
          d = set_str (grouping_identifier p) ''groupingIdentifier'' d;
          d = set_if (sharing_prohibited p \<noteq> None) ''sharingProhibited''
                (json_opt_bool (sharing_prohibited p)) d;
          d = set_if (nfc p \<noteq> None) ''nfc'' (JDict (content (nfc p))) d;
          d = set_if (semantics p \<noteq> None) ''semantics'' (JDict (content (semantics p))) d;
          d = set_if (personalization p \<noteq> None) ''personalization''
                (JDict (content (personalization p))) d;
          d = set_if (content (upcoming_event_info p) \<noteq> []) ''upcomingEventInfo''
                (JList (map JDict (content (upcoming_event_info p)))) d
      in d)"

definition json_dict :: "ApplePass \<Rightarrow> py_error + json dict" where
  "json_dict p =
     (case barcodes_section p (required_fields p) of
        Inl e \<Rightarrow> Inl e
      | Inr d \<Rightarrow> Inr (optional_sections p (relevance_sections p (relevant_dates_section p d))))"

subsection \<open>\<open>__setattr__\<close>\<close>

text \<open>
  A loop \<open>for x in value: self.add(x)\<close>: the elements are added one by one, and the
  first exception ends the loop, the elements added before it staying in the list.
  The result is the exception raised, if any, and the pass as the loop left it.
\<close>

fun add_each ::
  "(pyval \<Rightarrow> ApplePass \<Rightarrow> py_error + ApplePass) \<Rightarrow> pyval list \<Rightarrow> ApplePass
     \<Rightarrow> py_error option \<times> ApplePass" where
  "add_each add [] p = (None, p)"
| "add_each add (v # vs) p =
     (case add v p of Inl e \<Rightarrow> (Some e, p) | Inr p' \<Rightarrow> add_each add vs p')"

definition deprecated :: "string \<Rightarrow> string \<Rightarrow> string" where
  "deprecated name method =
     ''Setting '' @ [CHR 0x27] @ name @ [CHR 0x27] @ '' directly is deprecated. Use '' @ method
       @ ''() instead. '' @ ''This will be removed in version 0.2.0.''"

definition startswith_underscore :: "string \<Rightarrow> bool" where
  "startswith_underscore name = (case name of [] \<Rightarrow> False | c # _ \<Rightarrow> c = CHR ''_'')"

text \<open>
  \<open>p.name = value\<close>. The result is the deprecation warnings issued, the exception
  raised (if any) and the pass afterwards. \<open>super().__setattr__\<close>, the interpreter's
  own attribute store, is the parameter \<open>object_setattr\<close>.
\<close>

definition setattr ::
  "(string \<Rightarrow> pyval \<Rightarrow> ApplePass \<Rightarrow> ApplePass) \<Rightarrow> string \<Rightarrow> pyval \<Rightarrow> ApplePass
     \<Rightarrow> string list \<times> py_error option \<times> ApplePass" where
  "setattr object_setattr name v p =
     (if name = ''barcode'' \<and> \<not> startswith_underscore name
      then ([deprecated ''barcode'' ''add_barcode''],
            if v \<noteq> VNone then add_each add_barcode [v] p else (None, p))
      else if name = ''locations'' \<and> \<not> startswith_underscore name
      then ([deprecated ''locations'' ''add_location''],
            if v \<noteq> VNone
            then (case v of VList vs \<Rightarrow> add_each add_location vs p
                          | _ \<Rightarrow> add_each add_location [v] p)
            else (None, p))
      else if name = ''ibeacons'' \<and> \<not> startswith_underscore name
      then ([deprecated ''ibeacons'' ''add_beacon''],
            if v \<noteq> VNone
            then (case v of VList vs \<Rightarrow> add_each add_beacon vs p
                          | _ \<Rightarrow> add_each add_beacon [v] p)
            else (None, p))
      else if name = ''relevant_date'' \<and> \<not> startswith_underscore name
      then ([deprecated ''relevant_date'' ''add_relevant_date''],
            if v \<noteq> VNone then add_each add_relevant_date [v] p else (None, p))
      else ([], None, object_setattr name v p))"

subsection \<open>\<open>create\<close> and its steps\<close>

text \<open>\<open>str.encode("utf-8")\<close> for code points below 256: one byte below 128, two from there.\<close>

definition encode_utf8 :: "string \<Rightarrow> bytes" where
  "encode_utf8 s =
     concat (map (\<lambda>c. let n = (of_char c :: nat) in
                        if n < 128 then [of_nat n]
                        else [of_nat (192 + n div 64), of_nat (128 + n mod 64)]) s)"

text \<open>
  \<open>json.dumps(self, default=pass_handler)\<close>: the encoder hands the pass to
  \<open>pass_handler\<close>, which returns its \<open>json_dict()\<close>.
\<close>

definition create_pass_json :: "py_runtime \<Rightarrow> ApplePass \<Rightarrow> py_error + string" where
  "create_pass_json rt p =
     (case json_dict p of Inl e \<Rightarrow> Inl e | Inr d \<Rightarrow> Inr (json_dumps rt (JDict d)))"

text \<open>
  \<open>_create_manifest\<close> writes into \<open>self._hashes\<close>, which lives as long as the pass, and
  returns the dictionary serialized: the manifest and the pass with its new digests.
\<close>

definition store_hashes :: "py_runtime \<Rightarrow> string \<Rightarrow> bytes dict \<Rightarrow> string dict \<Rightarrow> string dict" where
  "store_hashes rt pass_json files h =
     fold (\<lambda>(filename, filedata) h. dict_set h filename (sha1_hexdigest rt filedata)) files
       (dict_set h ''pass.json'' (sha1_hexdigest rt (encode_utf8 pass_json)))"

definition create_manifest :: "py_runtime \<Rightarrow> string \<Rightarrow> ApplePass \<Rightarrow> string \<times> ApplePass" where
  "create_manifest rt pass_json p =
     (let h = store_hashes rt pass_json (priv_files p) (priv_hashes p)
      in (json_dumps rt (JDict (map (\<lambda>(k, v). (k, JStr v)) h)), p\<lparr>priv_hashes := h\<rparr>))"

text \<open>
  \<open>_create_signature_crypto\<close>: the certificate is read and parsed, then the key, then
  the WWDR certificate, and then the signer is called. The second component lists the
  data the signer was called with: nothing when it was not called.
\<close>

definition create_signature_crypto ::
  "py_runtime \<Rightarrow> string \<Rightarrow> string \<Rightarrow> string \<Rightarrow> string \<Rightarrow> string
     \<Rightarrow> (py_error + bytes) \<times> bytes list" where
  "create_signature_crypto rt manifest certificate key wwdr_certificate password =
     (case read_file_bytes rt certificate of Inl e \<Rightarrow> (Inl e, []) | Inr c \<Rightarrow>
     (case load_pem_x509_certificate rt c of Inl e \<Rightarrow> (Inl e, []) | Inr cert \<Rightarrow>
     (case read_file_bytes rt key of Inl e \<Rightarrow> (Inl e, []) | Inr k \<Rightarrow>
     (case load_pem_private_key rt k (encode_utf8 password) of Inl e \<Rightarrow> (Inl e, []) | Inr priv_key \<Rightarrow>
     (case read_file_bytes rt wwdr_certificate of Inl e \<Rightarrow> (Inl e, []) | Inr w \<Rightarrow>
     (case load_pem_x509_certificate rt w of Inl e \<Rightarrow> (Inl e, []) | Inr wwdr_cert \<Rightarrow>
        (pkcs7_sign rt (encode_utf8 manifest) cert priv_key wwdr_cert,
         [encode_utf8 manifest])))))))"

text \<open>The archive is the list of its entries, in the order they are written.\<close>

definition create_zip :: "string \<Rightarrow> string \<Rightarrow> bytes \<Rightarrow> ApplePass \<Rightarrow> bytes dict" where
  "create_zip pass_json manifest signature p =
     [(''signature'', signature), (''manifest.json'', encode_utf8 manifest),
      (''pass.json'', encode_utf8 pass_json)] @ priv_files p"

text \<open>
  \<open>create\<close> returns the archive or the exception raised, the pass afterwards, and the
  data the signer was called with.
\<close>

definition create ::
  "py_runtime \<Rightarrow> string \<Rightarrow> string \<Rightarrow> string \<Rightarrow> string \<Rightarrow> ApplePass
     \<Rightarrow> (py_error + bytes dict) \<times> ApplePass \<times> bytes list" where
  "create rt certificate key wwdr_certificate password p =
     (if serial_number p = [] then (Inl (ValueError ''serial_number is required''), p, [])
      else if description p = [] then (Inl (ValueError ''description is required''), p, [])
      else
        case create_pass_json rt p of
          Inl e \<Rightarrow> (Inl e, p, [])
        | Inr pass_json \<Rightarrow>
            (case create_manifest rt pass_json p of
               (manifest, p') \<Rightarrow>
                 (case create_signature_crypto rt manifest certificate key wwdr_certificate password of
                    (Inl e, calls) \<Rightarrow> (Inl e, p', calls)
                  | (Inr signature, calls) \<Rightarrow>
                      (Inr (create_zip pass_json manifest signature p'), p', calls))))"

section \<open>Notions used in the statements\<close>

text \<open>The key a populated (truthy) optional string contributes to a dictionary.\<close>

definition populated :: "string \<Rightarrow> string option \<Rightarrow> json dict" where
  "populated k v = (if truthy v then [(k, json_opt_str v)] else [])"

text \<open>A pass to evaluate the operations on: a generic pass with no field, just built.\<close>

definition example_information :: PassInformation where
  "example_information =
     \<lparr>kind = Generic, header_fields = [], primary_fields = [], secondary_fields = [],
      back_fields = [], auxiliary_fields = [], additional_info_fields = []\<rparr>"

definition example_pass :: ApplePass where
  "example_pass =
     ApplePass_init example_information ''pass.com.example.generic'' ''Example Corp'' ''A1B2C3D4E5''"

text \<open>
  A runtime to evaluate \<open>create\<close> on. Its digest is SHA-1 tabulated on the byte
  strings the examples hash, \<open>b"x"\<close>, \<open>b"{}"\<close> and \<open>b"icon"\<close>; its encoder returns
  \<open>{}\<close> for every value; its files are empty, its loaders return what they are given
  and its signer returns the data it is to sign.
\<close>

definition example_sha1 :: "bytes \<Rightarrow> string" where
  "example_sha1 bs =
     (if bs = [0x78] then ''11f6ad8ec52a2984abaafd7c3b516503785c2072''
      else if bs = [0x7B, 0x7D] then ''bf21a9e8fbc5a3846fb05b4fa0859e0917b2202f''
      else if bs = [0x69, 0x63, 0x6F, 0x6E] then ''f8995ba5891b07e328c60d6bd6c10159878c5a13''
      else [])"

definition example_runtime :: py_runtime where
  "example_runtime =
     \<lparr>float_of_str = (\<lambda>s. None), float_of_int = (\<lambda>n. Some (of_int n)),
      json_dumps = (\<lambda>j. ''{}''), sha1_hexdigest = example_sha1,
      read_file_bytes = (\<lambda>path. Inr []), load_pem_x509_certificate = Inr,
      load_pem_private_key = (\<lambda>k password. Inr k),
      pkcs7_sign = (\<lambda>data cert priv_key wwdr_cert. Inr data)\<rparr>"

section \<open>Lemmas about dictionaries and the sections of \<open>json_dict\<close>\<close>

lemma dict_get_set [simp]: "dict_get (dict_set d k v) k' = (if k' = k then Some v else dict_get d k')"
  by (simp add: dict_get_def dict_set_def update_conv')

lemma dict_get_set_if [simp]: "dict_get (set_if c k v d) k' = (if c \<and> k' = k then Some v else dict_get d k')"
  by (simp add: set_if_def)

lemma dict_get_set_str [simp]:
  "dict_get (set_str s k d) k' = (if truthy s \<and> k' = k then Some (json_opt_str s) else dict_get d k')"
  by (simp add: set_str_def)

lemma dict_get_web [simp]:
  "k \<noteq> ''webServiceURL'' \<Longrightarrow> k \<noteq> ''authenticationToken'' \<Longrightarrow>
   dict_get (web_service_section p d) k = dict_get d k"
  by (simp add: web_service_section_def)

lemma optional_sections_barcode: "dict_get (optional_sections p d) ''barcode'' = dict_get d ''barcode''"
  by (simp add: optional_sections_def Let_def)
lemma optional_sections_barcodes: "dict_get (optional_sections p d) ''barcodes'' = dict_get d ''barcodes''"
  by (simp add: optional_sections_def Let_def)
lemma optional_sections_relevantDate:
  "dict_get (optional_sections p d) ''relevantDate'' = dict_get d ''relevantDate''"
  by (simp add: optional_sections_def Let_def)
lemma optional_sections_relevantDates:
  "dict_get (optional_sections p d) ''relevantDates'' = dict_get d ''relevantDates''"
  by (simp add: optional_sections_def Let_def)
lemma relevance_sections_keeps:
  "k \<noteq> ''locations'' \<Longrightarrow> k \<noteq> ''beacons'' \<Longrightarrow> dict_get (relevance_sections p d) k = dict_get d k"
  by (simp add: relevance_sections_def Let_def)

lemma dict_get_empty [simp]: "dict_get [] k = None"
  by (simp add: dict_get_def)

lemma required_fields_no_barcode:
  "dict_get (required_fields p) ''barcode'' = None"
  "dict_get (required_fields p) ''barcodes'' = None"
  "dict_get (required_fields p) ''relevantDate'' = None"
  "dict_get (required_fields p) ''relevantDates'' = None"
  by (cases "kind (pass_information p)"; simp add: required_fields_def Let_def)+

lemma barcodes_section_keeps:
  "barcodes_section p d = Inr d' \<Longrightarrow> k \<noteq> ''barcode'' \<Longrightarrow> k \<noteq> ''barcodes'' \<Longrightarrow>
   dict_get d' k = dict_get d k"
  by (auto simp: barcodes_section_def Let_def split: list.splits if_splits sum.splits)

lemma relevant_dates_section_keeps:
  "k \<noteq> ''relevantDate'' \<Longrightarrow> k \<noteq> ''relevantDates'' \<Longrightarrow>
   dict_get (relevant_dates_section p d) k = dict_get d k"
  by (simp add: relevant_dates_section_def Let_def split: list.split)

lemma relevant_dates_section_relevantDate:
  "priv_relevant_dates p = rd # rds \<Longrightarrow>
   dict_get (relevant_dates_section p d) ''relevantDate'' =
     Some (json_opt_str (if truthy (date rd) then date rd
                         else if truthy (startDate rd) then startDate rd else endDate rd))"
  by (simp add: relevant_dates_section_def Let_def)

lemma relevant_dates_section_relevantDates:
  "priv_relevant_dates p = rd # rds \<Longrightarrow>
   dict_get (relevant_dates_section p d) ''relevantDates'' =
     (if filter (\<lambda>e. e \<noteq> []) (map date_entry (rd # rds)) = [] then dict_get d ''relevantDates''
      else Some (JList (map JDict (filter (\<lambda>e. e \<noteq> []) (map date_entry (rd # rds))))))"
  by (simp add: relevant_dates_section_def Let_def)

lemma json_dict_split:
  assumes "json_dict p = Inr d"
  obtains d0 where "barcodes_section p (required_fields p) = Inr d0"
    and "d = optional_sections p (relevance_sections p (relevant_dates_section p d0))"
  using assms by (auto simp: json_dict_def split: sum.splits)

lemma date_entry_populated:
  "date_entry r = populated ''date'' (date r) @ populated ''startDate'' (startDate r)
                    @ populated ''endDate'' (endDate r)"
  by (simp add: date_entry_def populated_def Let_def dict_set_def)


lemma example_no_barcodes: "priv_barcodes (example_pass\<lparr>priv_relevant_dates := rds\<rparr>) = []"
  by (simp add: example_pass_def ApplePass_init_def)

lemma json_dict_no_barcodes:
  "priv_barcodes p = [] \<Longrightarrow>
   json_dict p = Inr (optional_sections p (relevance_sections p (relevant_dates_section p (required_fields p))))"
  by (simp add: json_dict_def barcodes_section_def)

lemma PDF417_valid: "PDF417 \<in> set valid_formats"
  by (simp add: valid_formats_def)

lemma barcodes_section_values:
  assumes "priv_barcodes p = b # bs" and "barcodes_section p d = Inr d'"
  shows "dict_get d' ''barcodes'' = Some (JList (map (\<lambda>b. JDict (Barcode_json_dict b)) (b # bs)))"
    and "dict_get d' ''barcode'' =
           Some (JDict (Barcode_json_dict
             (if format b \<in> set legacy_formats then b
              else \<lparr>format = PDF417, message = message b,
                    messageEncoding = (case altText b of None \<Rightarrow> [] | Some a \<Rightarrow> a),
                    altText = Some (messageEncoding b)\<rparr>)))"
  using assms
  by (auto simp: barcodes_section_def Let_def Barcode_init_def PDF417_valid split: if_splits)

lemma barcodes_section_returns:
  assumes "priv_barcodes p = b # bs" and "format b \<in> set legacy_formats \<or> message b \<noteq> []"
  shows "\<exists>d'. barcodes_section p d = Inr d'"
  using assms by (auto simp: barcodes_section_def Let_def Barcode_init_def PDF417_valid)

lemma json_dict_barcode:
  assumes "priv_barcodes p = b # bs" and "json_dict p = Inr d"
  shows "dict_get d ''barcodes'' = Some (JList (map (\<lambda>b. JDict (Barcode_json_dict b)) (b # bs)))"
    and "dict_get d ''barcode'' =
           Some (JDict (Barcode_json_dict
             (if format b \<in> set legacy_formats then b
              else \<lparr>format = PDF417, message = message b,
                    messageEncoding = (case altText b of None \<Rightarrow> [] | Some a \<Rightarrow> a),
                    altText = Some (messageEncoding b)\<rparr>)))"
proof -
  from assms(2) obtain d0 where b: "barcodes_section p (required_fields p) = Inr d0"
    and d: "d = optional_sections p (relevance_sections p (relevant_dates_section p d0))"
    by (rule json_dict_split)
  have 1: "dict_get d ''barcodes'' = dict_get d0 ''barcodes''"
    by (simp add: d optional_sections_barcodes relevance_sections_keeps relevant_dates_section_keeps)
  have 2: "dict_get d ''barcode'' = dict_get d0 ''barcode''"
    by (simp add: d optional_sections_barcode relevance_sections_keeps relevant_dates_section_keeps)
  show "dict_get d ''barcodes'' = Some (JList (map (\<lambda>b. JDict (Barcode_json_dict b)) (b # bs)))"
    unfolding 1 by (rule barcodes_section_values(1) [OF assms(1) b])
  show "dict_get d ''barcode'' =
           Some (JDict (Barcode_json_dict
             (if format b \<in> set legacy_formats then b
              else \<lparr>format = PDF417, message = message b,
                    messageEncoding = (case altText b of None \<Rightarrow> [] | Some a \<Rightarrow> a),
                    altText = Some (messageEncoding b)\<rparr>)))"
    unfolding 2 by (rule barcodes_section_values(2) [OF assms(1) b])
qed

lemma json_dict_returns:
  assumes "priv_barcodes p = [] \<or> format (hd (priv_barcodes p)) \<in> set legacy_formats
           \<or> message (hd (priv_barcodes p)) \<noteq> []"
  shows "\<exists>d. json_dict p = Inr d"
proof (cases "priv_barcodes p")
  case Nil
  then show ?thesis by (simp add: json_dict_no_barcodes)
next
  case (Cons b bs)
  with assms have "format b \<in> set legacy_formats \<or> message b \<noteq> []" by simp
  from barcodes_section_returns [OF Cons this]
  obtain d0 where "barcodes_section p (required_fields p) = Inr d0" by blast
  then show ?thesis by (simp add: json_dict_def)
qed

lemma float_or_no_overflow:
  "(\<forall>m. py_float rt v \<noteq> Inl (OverflowError m)) \<Longrightarrow> \<exists>x. float_or rt v fb wrap = Inr x"
  by (cases "py_float rt v") (auto simp: float_or_def split: py_error.splits)

lemma Location_init_unparseable:
  "float_of_str rt s = None \<Longrightarrow>
   Location_init rt (VStr s) VNone VNone None VNone =
     Inr \<lparr>latitude = 0, longitude = 0, altitude = None, maxDistance = None, relevantText = None\<rparr>"
  by (simp add: Location_init_def float_or_def py_float_def)

lemma add_location_Location:
  "add_location (VLocation l) p =
     (if length (priv_locations p) < 10 then Inr (p\<lparr>priv_locations := priv_locations p @ [l]\<rparr>)
      else Inl (ValueError ''Maximum 10 locations allowed per pass''))"
  by (simp add: add_location_def)

lemma add_beacon_IBeacon:
  "add_beacon (VIBeacon b) p =
     (if length (priv_beacons p) < 10 then Inr (p\<lparr>priv_beacons := priv_beacons p @ [b]\<rparr>)
      else Inl (ValueError ''Maximum 10 beacons allowed per pass''))"
  by (simp add: add_beacon_def)

lemma add_each_locations:
  "add_each add_location (map VLocation ls) p =
     (if ls = [] \<or> length (priv_locations p) + length ls \<le> 10
      then (None, p\<lparr>priv_locations := priv_locations p @ ls\<rparr>)
      else (Some (ValueError ''Maximum 10 locations allowed per pass''),
            p\<lparr>priv_locations := priv_locations p @ take (10 - length (priv_locations p)) ls\<rparr>))"
proof (induction ls arbitrary: p)
  case Nil
  then show ?case by simp
next
  case (Cons l ls)
  show ?case
  proof (cases "length (priv_locations p) \<ge> 10")
    case True
    then show ?thesis by (simp add: add_location_Location)
  next
    case False
    then have n: "10 - length (priv_locations p) = Suc (9 - length (priv_locations p))" by simp
    from False show ?thesis
      by (auto simp: add_location_Location Cons.IH n)
  qed
qed

lemma add_each_beacons:
  "add_each add_beacon (map VIBeacon ls) p =
     (if ls = [] \<or> length (priv_beacons p) + length ls \<le> 10
      then (None, p\<lparr>priv_beacons := priv_beacons p @ ls\<rparr>)
      else (Some (ValueError ''Maximum 10 beacons allowed per pass''),
            p\<lparr>priv_beacons := priv_beacons p @ take (10 - length (priv_beacons p)) ls\<rparr>))"
proof (induction ls arbitrary: p)
  case Nil
  then show ?case by simp
next
  case (Cons l ls)
  show ?case
  proof (cases "length (priv_beacons p) \<ge> 10")
    case True
    then show ?thesis by (simp add: add_beacon_IBeacon)
  next
    case False
    then have n: "10 - length (priv_beacons p) = Suc (9 - length (priv_beacons p))" by simp
    from False show ?thesis
      by (auto simp: add_beacon_IBeacon Cons.IH n)
  qed
qed

lemma example_pass_empty:
  "priv_locations example_pass = []" "priv_beacons example_pass = []"
  "priv_barcodes example_pass = []" "priv_relevant_dates example_pass = []"
  "priv_files example_pass = []" "priv_hashes example_pass = []"
  by (simp_all add: example_pass_def ApplePass_init_def)


lemma dict_set_twice: "dict_set (dict_set d k v') k v = dict_set d k v"
  by (simp add: dict_set_def)

lemma keys_dict_set: "fst ` set (dict_set d k v) = insert k (fst ` set d)"
  by (simp add: dict_set_def dom_update)

lemma dict_set_swap:
  "k \<noteq> k' \<Longrightarrow> k \<in> fst ` set d \<Longrightarrow>
   dict_set (dict_set d k v) k' v' = dict_set (dict_set d k' v') k v"
  unfolding dict_set_def by (induction d) auto

lemma keys_fold_dict_set:
  "fst ` set (fold (\<lambda>kv d. dict_set d (fst kv) (snd kv)) kvs d) = fst ` set d \<union> fst ` set kvs"
  by (induction kvs arbitrary: d) (auto simp: keys_dict_set)

lemma fold_dict_set_overwritten:
  "k \<in> fst ` set kvs \<Longrightarrow> k \<in> fst ` set e \<Longrightarrow>
   fold (\<lambda>kv d. dict_set d (fst kv) (snd kv)) kvs (dict_set e k v)
     = fold (\<lambda>kv d. dict_set d (fst kv) (snd kv)) kvs e"
proof (induction kvs arbitrary: e)
  case Nil
  then show ?case by simp
next
  case (Cons kv kvs)
  show ?case
  proof (cases "fst kv = k")
    case True
    then show ?thesis by (simp add: dict_set_twice)
  next
    case False
    with Cons.prems have in_rest: "k \<in> fst ` set kvs" by auto
    have sw: "dict_set (dict_set e k v) (fst kv) (snd kv) = dict_set (dict_set e (fst kv) (snd kv)) k v"
      using False Cons.prems(2) by (intro dict_set_swap) auto
    have "k \<in> fst ` set (dict_set e (fst kv) (snd kv))"
      using Cons.prems(2) by (simp add: keys_dict_set)
    from Cons.IH [OF in_rest this] show ?thesis by (simp add: sw)
  qed
qed

lemma fold_dict_set_untouched:
  "k \<notin> fst ` set kvs \<Longrightarrow> k \<in> fst ` set e \<Longrightarrow>
   fold (\<lambda>kv d. dict_set d (fst kv) (snd kv)) kvs (dict_set e k v)
     = dict_set (fold (\<lambda>kv d. dict_set d (fst kv) (snd kv)) kvs e) k v"
proof (induction kvs arbitrary: e)
  case Nil
  then show ?case by simp
next
  case (Cons kv kvs)
  from Cons.prems have ne: "k \<noteq> fst kv" and rest: "k \<notin> fst ` set kvs" by auto
  have sw: "dict_set (dict_set e k v) (fst kv) (snd kv) = dict_set (dict_set e (fst kv) (snd kv)) k v"
    using ne Cons.prems(2) by (intro dict_set_swap) auto
  have "k \<in> fst ` set (dict_set e (fst kv) (snd kv))"
    using Cons.prems(2) by (simp add: keys_dict_set)
  from Cons.IH [OF rest this] show ?case by (simp add: sw)
qed

lemma fold_dict_set_idem:
  "fold (\<lambda>kv d. dict_set d (fst kv) (snd kv)) kvs (fold (\<lambda>kv d. dict_set d (fst kv) (snd kv)) kvs d)
     = fold (\<lambda>kv d. dict_set d (fst kv) (snd kv)) kvs d"
proof (induction kvs arbitrary: d)
  case Nil
  then show ?case by simp
next
  case (Cons kv kvs)
  let ?U = "fold (\<lambda>kv d. dict_set d (fst kv) (snd kv))"
  let ?k = "fst kv" and ?v = "snd kv"
  let ?d' = "dict_set d ?k ?v"
  let ?e = "?U kvs ?d'"
  have ke: "?k \<in> fst ` set ?e" by (simp add: keys_fold_dict_set keys_dict_set)
  have kd: "?k \<in> fst ` set ?d'" by (simp add: keys_dict_set)
  have "?U kvs (dict_set ?e ?k ?v) = ?e"
  proof (cases "?k \<in> fst ` set kvs")
    case True
    from fold_dict_set_overwritten [OF True ke] Cons.IH show ?thesis by simp
  next
    case False
    have "?U kvs (dict_set ?e ?k ?v) = dict_set (?U kvs ?e) ?k ?v"
      by (rule fold_dict_set_untouched [OF False ke])
    also have "\<dots> = dict_set ?e ?k ?v" by (simp add: Cons.IH)
    also have "\<dots> = ?U kvs (dict_set ?d' ?k ?v)"
      by (rule fold_dict_set_untouched [OF False kd, symmetric])
    also have "\<dots> = ?e" by (simp add: dict_set_twice)
    finally show ?thesis .
  qed
  then show ?case by simp
qed

lemma store_hashes_fold:
  "store_hashes rt pass_json files h =
     fold (\<lambda>kv d. dict_set d (fst kv) (snd kv))
       ((''pass.json'', sha1_hexdigest rt (encode_utf8 pass_json))
          # map (\<lambda>(n, data). (n, sha1_hexdigest rt data)) files) h"
proof -
  have "fold (\<lambda>(filename, filedata) h. dict_set h filename (sha1_hexdigest rt filedata)) files d
        = fold (\<lambda>kv d. dict_set d (fst kv) (snd kv))
            (map (\<lambda>(n, data). (n, sha1_hexdigest rt data)) files) d" for d
    by (induction files arbitrary: d) (auto simp: case_prod_beta)
  then show ?thesis by (simp add: store_hashes_def)
qed

lemma store_hashes_idem:
  "store_hashes rt pass_json files (store_hashes rt pass_json files h) = store_hashes rt pass_json files h"
  unfolding store_hashes_fold by (rule fold_dict_set_idem)

lemma create_manifest_twice:
  "create_manifest rt pass_json (snd (create_manifest rt pass_json p)) = create_manifest rt pass_json p"
  by (simp add: create_manifest_def Let_def store_hashes_idem)

lemma sections_hashes:
  "required_fields (p\<lparr>priv_hashes := h\<rparr>) = required_fields p"
  "barcodes_section (p\<lparr>priv_hashes := h\<rparr>) d = barcodes_section p d"
  "relevant_dates_section (p\<lparr>priv_hashes := h\<rparr>) d = relevant_dates_section p d"
  "relevance_sections (p\<lparr>priv_hashes := h\<rparr>) d = relevance_sections p d"
  "web_service_section (p\<lparr>priv_hashes := h\<rparr>) d = web_service_section p d"
  by (simp_all add: required_fields_def barcodes_section_def relevant_dates_section_def
        relevance_sections_def web_service_section_def split: list.split)

lemma optional_sections_hashes:
  "optional_sections (p\<lparr>priv_hashes := h\<rparr>) d = optional_sections p d"
  by (simp add: optional_sections_def sections_hashes)

lemma json_dict_hashes: "json_dict (p\<lparr>priv_hashes := h\<rparr>) = json_dict p"
  by (simp add: json_dict_def sections_hashes optional_sections_hashes cong: sum.case_cong)

lemma create_pass_json_hashes: "create_pass_json rt (p\<lparr>priv_hashes := h\<rparr>) = create_pass_json rt p"
  by (simp add: create_pass_json_def json_dict_hashes cong: sum.case_cong)

lemma create_manifest_fields:
  "serial_number (snd (create_manifest rt pj p)) = serial_number p"
  "description (snd (create_manifest rt pj p)) = description p"
  "priv_files (snd (create_manifest rt pj p)) = priv_files p"
  "create_pass_json rt (snd (create_manifest rt pj p)) = create_pass_json rt p"
  by (simp_all add: create_manifest_def Let_def create_pass_json_hashes)

lemma create_state:
  "fst (snd (create rt c k w pw p)) = p \<or>
   (\<exists>pj. create_pass_json rt p = Inr pj \<and> serial_number p \<noteq> [] \<and> description p \<noteq> [] \<and>
         fst (snd (create rt c k w pw p)) = snd (create_manifest rt pj p))"
  by (auto simp: create_def split: sum.splits prod.splits)


lemma example_pass_fields:
  "serial_number example_pass = []" "description example_pass = []"
  by (simp_all add: example_pass_def ApplePass_init_def)

lemma encode_utf8_braces: "encode_utf8 ''{}'' = [0x7B, 0x7D]"
  by (simp add: encode_utf8_def)

lemma example_signature:
  "create_signature_crypto example_runtime ''{}'' c k w pw = (Inr [0x7B, 0x7D], [[0x7B, 0x7D]])"
  by (simp add: create_signature_crypto_def example_runtime_def encode_utf8_braces)


lemma fold_dict_set_other:
  "k \<notin> fst ` set kvs \<Longrightarrow>
   dict_get (fold (\<lambda>kv d. dict_set d (fst kv) (snd kv)) kvs d) k = dict_get d k"
  by (induction kvs arbitrary: d) auto

lemma fold_dict_set_member:
  "distinct (map fst kvs) \<Longrightarrow> (k, v) \<in> set kvs \<Longrightarrow>
   dict_get (fold (\<lambda>kv d. dict_set d (fst kv) (snd kv)) kvs d) k = Some v"
proof (induction kvs arbitrary: d)
  case Nil
  then show ?case by simp
next
  case (Cons kv kvs)
  show ?case
  proof (cases "kv = (k, v)")
    case True
    with Cons.prems(1) have "k \<notin> fst ` set kvs" by auto
    then show ?thesis using True by (simp add: fold_dict_set_other)
  next
    case False
    with Cons.prems have "distinct (map fst kvs)" and "(k, v) \<in> set kvs" by auto
    then show ?thesis by (simp add: Cons.IH)
  qed
qed

lemma store_hashes_keys:
  "set (dict_keys (store_hashes rt pass_json files h)) =
     set (dict_keys h) \<union> insert ''pass.json'' (set (dict_keys files))"
  by (auto simp: store_hashes_fold dict_keys_def keys_fold_dict_set keys_dict_set image_image
        case_prod_beta)

lemma store_hashes_asset:
  assumes "distinct (dict_keys files)" and "dict_get files name = Some data"
  shows "dict_get (store_hashes rt pass_json files h) name = Some (sha1_hexdigest rt data)"
proof -
  let ?kvs = "map (\<lambda>(n, data). (n, sha1_hexdigest rt data)) files"
  have f: "map fst ?kvs = map fst files" by (induction files) auto
  from assms(2) have "(name, data) \<in> set files"
    by (simp add: dict_get_def map_of_SomeD)
  then have m: "(name, sha1_hexdigest rt data) \<in> set ?kvs" by force
  from assms(1) have d: "distinct (map fst ?kvs)" unfolding f by (simp add: dict_keys_def)
  show ?thesis
    unfolding store_hashes_fold by (simp add: fold_dict_set_member [OF d m])
qed

lemma store_hashes_document:
  assumes "''pass.json'' \<notin> set (dict_keys files)"
  shows "dict_get (store_hashes rt pass_json files h) ''pass.json''
           = Some (sha1_hexdigest rt (encode_utf8 pass_json))"
proof -
  let ?kvs = "map (\<lambda>(n, data). (n, sha1_hexdigest rt data)) files"
  from assms have "''pass.json'' \<notin> fst ` set ?kvs"
    by (auto simp: dict_keys_def case_prod_beta image_image)
  then show ?thesis
    unfolding store_hashes_fold by (simp add: fold_dict_set_other)
qed

lemma manifest_wellformed_preserved:
  "distinct (dict_keys (priv_files (ApplePass_init info a b c)))"
  "set (dict_keys (priv_hashes (ApplePass_init info a b c)))
     \<subseteq> insert ''pass.json'' (set (dict_keys (priv_files (ApplePass_init info a b c))))"
  "distinct (dict_keys (priv_files p)) \<Longrightarrow> distinct (dict_keys (priv_files (add_file name data p)))"
  "set (dict_keys (priv_hashes p)) \<subseteq> insert ''pass.json'' (set (dict_keys (priv_files p))) \<Longrightarrow>
   set (dict_keys (priv_hashes (add_file name data p)))
     \<subseteq> insert ''pass.json'' (set (dict_keys (priv_files (add_file name data p))))"
  by (auto simp: ApplePass_init_def add_file_def dict_keys_def dict_set_def distinct_update
        dom_update)

lemma manifest_wellformed_create_manifest:
  assumes "set (dict_keys (priv_hashes p)) \<subseteq> insert ''pass.json'' (set (dict_keys (priv_files p)))"
  shows "set (dict_keys (priv_hashes (snd (create_manifest rt pj p))))
     \<subseteq> insert ''pass.json'' (set (dict_keys (priv_files (snd (create_manifest rt pj p)))))"
proof -
  have "priv_hashes (snd (create_manifest rt pj p)) = store_hashes rt pj (priv_files p) (priv_hashes p)"
    and "priv_files (snd (create_manifest rt pj p)) = priv_files p"
    by (simp_all add: create_manifest_def Let_def)
  then show ?thesis using assms by (auto simp: store_hashes_keys)
qed


section \<open>Properties of \<open>utils.py\<close>\<close>

text \<open>
  C9. \<open>hex_to_rgb("#FFFFFF")\<close> returns \<open>"rgb(255, 255, 255)"\<close>; \<open>hex_to_rgb("F60")\<close>
  returns \<open>"rgb(255, 102, 0)"\<close>, each of the three digits doubled; and
  \<open>hex_to_rgb("GG0000")\<close> raises the \<open>ValueError\<close> that reports non-hex characters.
\<close>

theorem hex_to_rgb_examples:
  "hex_to_rgb ''#FFFFFF'' = Inr ''rgb(255, 255, 255)'' \<and>
   hex_to_rgb ''F60'' = Inr ''rgb(255, 102, 0)'' \<and>
   hex_to_rgb ''GG0000'' =
     Inl (ValueError ''Invalid hex color: 'GG0000' contains non-hex characters'')"
  by code_simp

section \<open>Properties of \<open>RelevantDate\<close>\<close>

lemma relevant_date_errors_distinct:
  "mutual_exclusion_error \<noteq> together_error"
  "mutual_exclusion_error \<noteq> missing_argument_error"
  "together_error \<noteq> missing_argument_error"
  by (simp_all add: mutual_exclusion_error_def together_error_def missing_argument_error_def)

text \<open>
  C5. Constructing a \<open>RelevantDate\<close> succeeds if and only if exactly one of the two
  forms holds: a date alone, or a start date and an end date with no date, where an
  argument is given when it is truthy (neither \<open>None\<close> nor empty). The object built
  stores the three arguments. A date together with a start date raises the
  mutual-exclusion error, no argument at all raises the missing-argument error, and a
  start date without an end date raises the error that asks for both.
\<close>

theorem RelevantDate_init_exactly_one_form:
  "((\<exists>rd. RelevantDate_init d s e = Inr rd) \<longleftrightarrow>
      (truthy d \<and> \<not> truthy s \<and> \<not> truthy e) \<or> (\<not> truthy d \<and> truthy s \<and> truthy e)) \<and>
   (\<forall>rd. RelevantDate_init d s e = Inr rd \<longrightarrow> rd = \<lparr>date = d, startDate = s, endDate = e\<rparr>) \<and>
   (truthy d \<and> truthy s \<longrightarrow> RelevantDate_init d s e = Inl mutual_exclusion_error) \<and>
   RelevantDate_init None None None = Inl missing_argument_error \<and>
   (truthy s \<longrightarrow> RelevantDate_init None s None = Inl together_error)"
  by (auto simp: RelevantDate_init_def)

theorem RelevantDate_init_exactly_one_form_witness:
  "RelevantDate_init (Some ''2026-03-15T19:00:00-08:00'') (Some ''2026-03-15T18:00:00-08:00'') None
     = Inl mutual_exclusion_error \<and>
   RelevantDate_init None (Some ''2026-03-15T18:00:00-08:00'') None = Inl together_error \<and>
   \<not> (\<exists>rd. RelevantDate_init (Some ''2026-03-15T19:00:00-08:00'')
               (Some ''2026-03-15T18:00:00-08:00'') None = Inr rd)"
  using RelevantDate_init_exactly_one_form
          [of "Some ''2026-03-15T19:00:00-08:00''" "Some ''2026-03-15T18:00:00-08:00''" None]
        RelevantDate_init_exactly_one_form
          [of None "Some ''2026-03-15T18:00:00-08:00''" None]
  by simp

section \<open>Properties of \<open>json_dict\<close>\<close>

text \<open>
  C4. For a pass with at least one attached relevant date, whose \<open>json_dict\<close> returns:
  the \<open>relevantDates\<close> array holds, in the order of attachment, one entry per attached
  date with whichever of \<open>date\<close>, \<open>startDate\<close> and \<open>endDate\<close> are populated, an entry
  with no key being dropped (and the key \<open>relevantDates\<close> itself being absent when every
  entry is dropped); the legacy \<open>relevantDate\<close> is the first attached entry's date if
  populated, otherwise its start date, otherwise its end date.
\<close>

theorem json_dict_relevant_dates:
  assumes "priv_relevant_dates p = rd # rds" and "json_dict p = Inr d"
  shows "dict_get d ''relevantDates'' =
           (let entries = filter (\<lambda>e. e \<noteq> [])
                  (map (\<lambda>r. populated ''date'' (date r) @ populated ''startDate'' (startDate r)
                              @ populated ''endDate'' (endDate r)) (rd # rds))
            in if entries = [] then None else Some (JList (map JDict entries))) \<and>
         dict_get d ''relevantDate'' =
           Some (json_opt_str (if truthy (date rd) then date rd
                               else if truthy (startDate rd) then startDate rd else endDate rd))"
proof -
  from assms(2) obtain d0 where b: "barcodes_section p (required_fields p) = Inr d0"
    and d: "d = optional_sections p (relevance_sections p (relevant_dates_section p d0))"
    by (rule json_dict_split)
  have n: "dict_get d0 ''relevantDates'' = None"
    using barcodes_section_keeps [OF b, of "''relevantDates''"] required_fields_no_barcode(4)
    by simp
  have e: "date_entry = (\<lambda>r. populated ''date'' (date r) @ populated ''startDate'' (startDate r)
                       @ populated ''endDate'' (endDate r))"
    by (rule ext) (rule date_entry_populated)
  have 1: "dict_get d ''relevantDates'' = dict_get (relevant_dates_section p d0) ''relevantDates''"
    by (simp add: d optional_sections_relevantDates relevance_sections_keeps)
  have 2: "dict_get d ''relevantDate'' = dict_get (relevant_dates_section p d0) ''relevantDate''"
    by (simp add: d optional_sections_relevantDate relevance_sections_keeps)
  show ?thesis
    unfolding 1 2 relevant_dates_section_relevantDates [OF assms(1)]
      relevant_dates_section_relevantDate [OF assms(1)] n e Let_def
    by simp
qed

theorem json_dict_relevant_dates_witness:
  "\<exists>d. json_dict (example_pass\<lparr>priv_relevant_dates :=
            [\<lparr>date = None, startDate = Some ''2026-03-15T18:00:00-08:00'',
               endDate = Some ''2026-03-15T22:00:00-08:00''\<rparr>,
             \<lparr>date = Some ''2026-04-01T09:00:00-08:00'', startDate = None, endDate = None\<rparr>]\<rparr>) = Inr d \<and>
       dict_get d ''relevantDate'' = Some (JStr ''2026-03-15T18:00:00-08:00'') \<and>
       dict_get d ''relevantDates'' =
         Some (JList [JDict [(''startDate'', JStr ''2026-03-15T18:00:00-08:00''),
                             (''endDate'', JStr ''2026-03-15T22:00:00-08:00'')],
                      JDict [(''date'', JStr ''2026-04-01T09:00:00-08:00'')]])"
proof -
  let ?rd = "\<lparr>date = None, startDate = Some ''2026-03-15T18:00:00-08:00'',
               endDate = Some ''2026-03-15T22:00:00-08:00''\<rparr>"
  let ?rds = "[\<lparr>date = Some ''2026-04-01T09:00:00-08:00'', startDate = None, endDate = None\<rparr>]"
  let ?p = "example_pass\<lparr>priv_relevant_dates := ?rd # ?rds\<rparr>"
  obtain d where d: "json_dict ?p = Inr d"
    using json_dict_no_barcodes [OF example_no_barcodes] by blast
  have r: "priv_relevant_dates ?p = ?rd # ?rds" by simp
  show ?thesis
    using json_dict_relevant_dates [OF r d] d
    by (simp add: populated_def json_opt_str_def)
qed

text \<open>
  C1, evaluated where the code departs from it. A pass whose only barcode is
  \<open>Barcode("1234", BarcodeFormat.CODE128)\<close>: the \<open>barcodes\<close> array holds the CODE128
  entry, and the legacy \<open>barcode\<close> is a PDF417 entry with the same message, but its
  \<open>messageEncoding\<close> is the empty string and the encoding of the first barcode,
  \<open>iso-8859-1\<close>, is emitted as its \<open>altText\<close>: the call that builds the legacy barcode
  passes the alternative text where the constructor takes the encoding, and the encoding
  where it takes the alternative text. (For a first barcode in a legacy format the
  legacy field is that barcode's dictionary, see \<open>json_dict_barcode\<close>.)
\<close>

theorem legacy_barcode_swaps_encoding_and_alt_text:
  "Barcode_init ''1234'' CODE128 ''iso-8859-1'' None =
     Inr \<lparr>format = CODE128, message = ''1234'', messageEncoding = ''iso-8859-1'', altText = None\<rparr> \<and>
   add_barcode (VBarcode \<lparr>format = CODE128, message = ''1234'',
                           messageEncoding = ''iso-8859-1'', altText = None\<rparr>) example_pass =
     Inr (example_pass\<lparr>priv_barcodes :=
            [\<lparr>format = CODE128, message = ''1234'', messageEncoding = ''iso-8859-1'', altText = None\<rparr>]\<rparr>) \<and>
   (\<exists>d. json_dict (example_pass\<lparr>priv_barcodes :=
            [\<lparr>format = CODE128, message = ''1234'', messageEncoding = ''iso-8859-1'', altText = None\<rparr>]\<rparr>)
          = Inr d \<and>
        dict_get d ''barcodes'' =
          Some (JList [JDict [(''format'', JStr ''PKBarcodeFormatCode128''), (''message'', JStr ''1234''),
                              (''messageEncoding'', JStr ''iso-8859-1'')]]) \<and>
        dict_get d ''barcode'' =
          Some (JDict [(''format'', JStr ''PKBarcodeFormatPDF417''), (''message'', JStr ''1234''),
                       (''messageEncoding'', JStr ''''), (''altText'', JStr ''iso-8859-1'')]))"
proof -
  let ?b = "\<lparr>format = CODE128, message = ''1234'', messageEncoding = ''iso-8859-1'', altText = None\<rparr>"
  let ?p = "example_pass\<lparr>priv_barcodes := [?b]\<rparr>"
  have i: "Barcode_init ''1234'' CODE128 ''iso-8859-1'' None = Inr ?b"
    by (simp add: Barcode_init_def valid_formats_def)
  have a: "add_barcode (VBarcode ?b) example_pass = Inr ?p"
    by (simp add: add_barcode_def example_pass_def ApplePass_init_def)
  have bs: "priv_barcodes ?p = ?b # []" by simp
  have "\<exists>d. json_dict ?p = Inr d"
    by (rule json_dict_returns) simp
  then obtain d where d: "json_dict ?p = Inr d" ..
  have n: "format ?b \<notin> set legacy_formats"
    by (simp add: legacy_formats_def CODE128_def PDF417_def QR_def AZTEC_def)
  have 1: "dict_get d ''barcodes'' =
          Some (JList [JDict [(''format'', JStr ''PKBarcodeFormatCode128''), (''message'', JStr ''1234''),
                              (''messageEncoding'', JStr ''iso-8859-1'')]])"
    using json_dict_barcode(1) [OF bs d] by (simp add: Barcode_json_dict_def CODE128_def)
  have 2: "dict_get d ''barcode'' =
          Some (JDict [(''format'', JStr ''PKBarcodeFormatPDF417''), (''message'', JStr ''1234''),
                       (''messageEncoding'', JStr ''''), (''altText'', JStr ''iso-8859-1'')])"
    using json_dict_barcode(2) [OF bs d] n
    by (simp add: Barcode_json_dict_def PDF417_def dict_set_def)
  from i a d 1 2 show ?thesis by blast
qed

section \<open>Properties of locations and beacons\<close>

text \<open>
  C8, evaluated where the code departs from it. \<open>Location(95.0, 200.0)\<close>: the latitude
  is above 90 and the longitude above 180, and the object stores 95.0 and 200.0 as
  given, not 0.0. The constructor never tests a range: only an argument that
  \<open>float()\<close> rejects with \<open>ValueError\<close> or \<open>TypeError\<close> becomes 0.0 (see
  \<open>Location_init_unparseable\<close>).
\<close>

theorem Location_init_keeps_out_of_range:
  "Location_init rt (VFloat 95) (VFloat 200) VNone None VNone =
     Inr \<lparr>latitude = 95, longitude = 200, altitude = None, maxDistance = None,
          relevantText = None\<rparr> \<and>
   (95 :: real) \<noteq> 0 \<and> \<not> (95 :: real) \<le> 90 \<and> (200 :: real) \<noteq> 0 \<and> \<not> (200 :: real) \<le> 180"
  by (simp add: Location_init_def float_or_def py_float_def)


text \<open>
  C6. \<open>add_location\<close> with a \<open>Location\<close> succeeds, appending it, exactly when fewer
  than 10 locations are attached, and raises the cardinality error otherwise (the pass it
  was called on is then the pass still). Called on a pass with no location, the first
  ten calls succeed and the eleventh raises, leaving the ten. Whatever the argument, a
  successful call keeps a pass of at most 10 locations within 10. The same holds for
  \<open>add_beacon\<close> and the beacons.
\<close>

theorem add_location_add_beacon_at_most_ten:
  "add_location (VLocation l) p =
     (if length (priv_locations p) < 10 then Inr (p\<lparr>priv_locations := priv_locations p @ [l]\<rparr>)
      else Inl (ValueError ''Maximum 10 locations allowed per pass'')) \<and>
   add_beacon (VIBeacon b) p =
     (if length (priv_beacons p) < 10 then Inr (p\<lparr>priv_beacons := priv_beacons p @ [b]\<rparr>)
      else Inl (ValueError ''Maximum 10 beacons allowed per pass'')) \<and>
   (priv_locations p = [] \<and> length ls \<le> 10 \<longrightarrow>
      add_each add_location (map VLocation ls) p = (None, p\<lparr>priv_locations := ls\<rparr>)) \<and>
   (priv_locations p = [] \<and> length ls = 11 \<longrightarrow>
      add_each add_location (map VLocation ls) p =
        (Some (ValueError ''Maximum 10 locations allowed per pass''),
         p\<lparr>priv_locations := take 10 ls\<rparr>)) \<and>
   (priv_beacons p = [] \<and> length bs \<le> 10 \<longrightarrow>
      add_each add_beacon (map VIBeacon bs) p = (None, p\<lparr>priv_beacons := bs\<rparr>)) \<and>
   (priv_beacons p = [] \<and> length bs = 11 \<longrightarrow>
      add_each add_beacon (map VIBeacon bs) p =
        (Some (ValueError ''Maximum 10 beacons allowed per pass''),
         p\<lparr>priv_beacons := take 10 bs\<rparr>)) \<and>
   (length (priv_locations p) \<le> 10 \<longrightarrow>
      (\<forall>v p'. add_location v p = Inr p' \<longrightarrow> length (priv_locations p') \<le> 10)) \<and>
   (length (priv_beacons p) \<le> 10 \<longrightarrow>
      (\<forall>v p'. add_beacon v p = Inr p' \<longrightarrow> length (priv_beacons p') \<le> 10))"
proof -
  have 1: "length (priv_locations p) \<le> 10 \<longrightarrow>
      (\<forall>v p'. add_location v p = Inr p' \<longrightarrow> length (priv_locations p') \<le> 10)"
    by (auto simp: add_location_def split: pyval.splits if_splits)
  have 2: "length (priv_beacons p) \<le> 10 \<longrightarrow>
      (\<forall>v p'. add_beacon v p = Inr p' \<longrightarrow> length (priv_beacons p') \<le> 10)"
    by (auto simp: add_beacon_def split: pyval.splits if_splits)
  have 3: "priv_locations p = [] \<and> length ls \<le> 10 \<longrightarrow>
      add_each add_location (map VLocation ls) p = (None, p\<lparr>priv_locations := ls\<rparr>)"
    by (simp add: add_each_locations)
  have 4: "priv_locations p = [] \<and> length ls = 11 \<longrightarrow>
      add_each add_location (map VLocation ls) p =
        (Some (ValueError ''Maximum 10 locations allowed per pass''),
         p\<lparr>priv_locations := take 10 ls\<rparr>)"
    by (auto simp: add_each_locations)
  have 5: "priv_beacons p = [] \<and> length bs \<le> 10 \<longrightarrow>
      add_each add_beacon (map VIBeacon bs) p = (None, p\<lparr>priv_beacons := bs\<rparr>)"
    by (simp add: add_each_beacons)
  have 6: "priv_beacons p = [] \<and> length bs = 11 \<longrightarrow>
      add_each add_beacon (map VIBeacon bs) p =
        (Some (ValueError ''Maximum 10 beacons allowed per pass''),
         p\<lparr>priv_beacons := take 10 bs\<rparr>)"
    by (auto simp: add_each_beacons)
  show ?thesis
    using 1 2 3 4 5 6 add_location_Location [of l p] add_beacon_IBeacon [of b p] by blast
qed


theorem add_location_add_beacon_at_most_ten_witness:
  "add_each add_location
     (map VLocation (replicate 11 \<lparr>latitude = 37, longitude = - 122, altitude = None,
                                  maxDistance = None, relevantText = None\<rparr>)) example_pass =
     (Some (ValueError ''Maximum 10 locations allowed per pass''),
      example_pass\<lparr>priv_locations :=
        replicate 10 \<lparr>latitude = 37, longitude = - 122, altitude = None,
                      maxDistance = None, relevantText = None\<rparr>\<rparr>) \<and>
   add_each add_beacon
     (map VIBeacon (replicate 11 \<lparr>proximityUUID = ''E2C56DB5-DFFB-48D2-B060-D0F5A71096E0'',
                                 major = Some 1, minor = None, beacon_relevantText = None\<rparr>))
     example_pass =
     (Some (ValueError ''Maximum 10 beacons allowed per pass''),
      example_pass\<lparr>priv_beacons :=
        replicate 10 \<lparr>proximityUUID = ''E2C56DB5-DFFB-48D2-B060-D0F5A71096E0'',
                      major = Some 1, minor = None, beacon_relevantText = None\<rparr>\<rparr>) \<and>
   length (priv_locations example_pass) \<le> 10"
  using add_location_add_beacon_at_most_ten
          [of _ example_pass _
              "replicate 11 \<lparr>latitude = 37, longitude = - 122, altitude = None,
                              maxDistance = None, relevantText = None\<rparr>"
              "replicate 11 \<lparr>proximityUUID = ''E2C56DB5-DFFB-48D2-B060-D0F5A71096E0'',
                              major = Some 1, minor = None, beacon_relevantText = None\<rparr>"]
  by (simp add: example_pass_empty)

section \<open>Properties of \<open>__setattr__\<close>\<close>

text \<open>
  C10, as the code has it. Assigning to \<open>barcode\<close>, \<open>locations\<close>, \<open>ibeacons\<close> or
  \<open>relevant_date\<close> never reaches the attribute store. \<open>p.barcode = v\<close> leaves the pass
  as it is when \<open>v\<close> is \<open>None\<close>, appends \<open>v\<close> when it is a \<open>Barcode\<close> and raises
  \<open>TypeError\<close> otherwise. \<open>locations\<close> and \<open>ibeacons\<close> are stated for every value
  too: \<open>None\<close> leaves the pass as it is; a \<open>Location\<close> (an \<open>IBeacon\<close>) is appended
  when fewer than 10 are attached and raises the cardinality error otherwise; a list is
  added element by element, each through \<open>add_location\<close> (\<open>add_beacon\<close>), until an
  element raises; any other value raises \<open>TypeError\<close> and leaves the pass as it is.
  \<open>relevant_date\<close> takes one \<open>RelevantDate\<close> or one date string; any other value, a
  list included, raises \<open>TypeError\<close>. Every other name goes to the attribute store,
  with no warning.
\<close>

theorem setattr_deprecated_names:
  "setattr store ''barcode'' v p =
     ([deprecated ''barcode'' ''add_barcode''],
      case v of
        VNone \<Rightarrow> (None, p)
      | VBarcode b \<Rightarrow> (None, p\<lparr>priv_barcodes := priv_barcodes p @ [b]\<rparr>)
      | _ \<Rightarrow> (Some (TypeError (''barcode must be a Barcode instance, got '' @ type_name v)), p)) \<and>
   setattr store ''locations'' VNone p = ([deprecated ''locations'' ''add_location''], None, p) \<and>
   setattr store ''locations'' (VLocation l) p =
     ([deprecated ''locations'' ''add_location''],
      if length (priv_locations p) < 10
      then (None, p\<lparr>priv_locations := priv_locations p @ [l]\<rparr>)
      else (Some (ValueError ''Maximum 10 locations allowed per pass''), p)) \<and>
   setattr store ''locations'' (VList vs) p =
     ([deprecated ''locations'' ''add_location''], add_each add_location vs p) \<and>
   setattr store ''locations'' (VList (map VLocation ls)) p =
     ([deprecated ''locations'' ''add_location''],
      if ls = [] \<or> length (priv_locations p) + length ls \<le> 10
      then (None, p\<lparr>priv_locations := priv_locations p @ ls\<rparr>)
      else (Some (ValueError ''Maximum 10 locations allowed per pass''),
            p\<lparr>priv_locations := priv_locations p @ take (10 - length (priv_locations p)) ls\<rparr>)) \<and>
   setattr store ''ibeacons'' VNone p = ([deprecated ''ibeacons'' ''add_beacon''], None, p) \<and>
   setattr store ''ibeacons'' (VIBeacon b') p =
     ([deprecated ''ibeacons'' ''add_beacon''],
      if length (priv_beacons p) < 10
      then (None, p\<lparr>priv_beacons := priv_beacons p @ [b']\<rparr>)
      else (Some (ValueError ''Maximum 10 beacons allowed per pass''), p)) \<and>
   setattr store ''ibeacons'' (VList vs) p =
     ([deprecated ''ibeacons'' ''add_beacon''], add_each add_beacon vs p) \<and>
   setattr store ''ibeacons'' (VList (map VIBeacon bs)) p =
     ([deprecated ''ibeacons'' ''add_beacon''],
      if bs = [] \<or> length (priv_beacons p) + length bs \<le> 10
      then (None, p\<lparr>priv_beacons := priv_beacons p @ bs\<rparr>)
      else (Some (ValueError ''Maximum 10 beacons allowed per pass''),
            p\<lparr>priv_beacons := priv_beacons p @ take (10 - length (priv_beacons p)) bs\<rparr>)) \<and>
   setattr store ''relevant_date'' v p =
     ([deprecated ''relevant_date'' ''add_relevant_date''],
      case v of
        VNone \<Rightarrow> (None, p)
      | VRelevantDate rd \<Rightarrow> (None, p\<lparr>priv_relevant_dates := priv_relevant_dates p @ [rd]\<rparr>)
      | VStr s \<Rightarrow>
          if s = [] then (Some missing_argument_error, p)
          else (None, p\<lparr>priv_relevant_dates := priv_relevant_dates p
                            @ [\<lparr>date = Some s, startDate = None, endDate = None\<rparr>]\<rparr>)
      | _ \<Rightarrow> (Some (TypeError (''date must be a RelevantDate instance or string, got ''
                                 @ type_name v)), p)) \<and>
   setattr store ''locations'' v p =
     ([deprecated ''locations'' ''add_location''],
      case v of
        VNone \<Rightarrow> (None, p)
      | VList xs \<Rightarrow> add_each add_location xs p
      | VLocation x \<Rightarrow>
          if length (priv_locations p) < 10
          then (None, p\<lparr>priv_locations := priv_locations p @ [x]\<rparr>)
          else (Some (ValueError ''Maximum 10 locations allowed per pass''), p)
      | _ \<Rightarrow> (Some (TypeError (''location must be a Location instance, got '' @ type_name v)), p)) \<and>
   setattr store ''ibeacons'' v p =
     ([deprecated ''ibeacons'' ''add_beacon''],
      case v of
        VNone \<Rightarrow> (None, p)
      | VList xs \<Rightarrow> add_each add_beacon xs p
      | VIBeacon x \<Rightarrow>
          if length (priv_beacons p) < 10
          then (None, p\<lparr>priv_beacons := priv_beacons p @ [x]\<rparr>)
          else (Some (ValueError ''Maximum 10 beacons allowed per pass''), p)
      | _ \<Rightarrow> (Some (TypeError (''beacon must be an IBeacon instance, got '' @ type_name v)), p)) \<and>
   add_location v p =
     (case v of
        VLocation x \<Rightarrow>
          if length (priv_locations p) < 10
          then Inr (p\<lparr>priv_locations := priv_locations p @ [x]\<rparr>)
          else Inl (ValueError ''Maximum 10 locations allowed per pass'')
      | _ \<Rightarrow> Inl (TypeError (''location must be a Location instance, got '' @ type_name v))) \<and>
   add_beacon v p =
     (case v of
        VIBeacon x \<Rightarrow>
          if length (priv_beacons p) < 10
          then Inr (p\<lparr>priv_beacons := priv_beacons p @ [x]\<rparr>)
          else Inl (ValueError ''Maximum 10 beacons allowed per pass'')
      | _ \<Rightarrow> Inl (TypeError (''beacon must be an IBeacon instance, got '' @ type_name v))) \<and>
   add_each add_location (x # xs) p =
     (case add_location x p of Inl e \<Rightarrow> (Some e, p) | Inr p' \<Rightarrow> add_each add_location xs p') \<and>
   add_each add_beacon (x # xs) p =
     (case add_beacon x p of Inl e \<Rightarrow> (Some e, p) | Inr p' \<Rightarrow> add_each add_beacon xs p') \<and>
   add_each add_location [] p = (None, p) \<and> add_each add_beacon [] p = (None, p) \<and>
   (name \<notin> {''barcode'', ''locations'', ''ibeacons'', ''relevant_date''} \<longrightarrow>
      setattr store name v p = ([], None, store name v p))"
proof -
  have 1: "setattr store ''barcode'' v p =
     ([deprecated ''barcode'' ''add_barcode''],
      case v of
        VNone \<Rightarrow> (None, p)
      | VBarcode b \<Rightarrow> (None, p\<lparr>priv_barcodes := priv_barcodes p @ [b]\<rparr>)
      | _ \<Rightarrow> (Some (TypeError (''barcode must be a Barcode instance, got '' @ type_name v)), p))"
    by (cases v) (simp_all add: setattr_def startswith_underscore_def add_barcode_def)
  have 2: "setattr store ''locations'' VNone p = ([deprecated ''locations'' ''add_location''], None, p)"
    by (simp add: setattr_def startswith_underscore_def)
  have 3: "setattr store ''locations'' (VLocation l) p =
     ([deprecated ''locations'' ''add_location''],
      if length (priv_locations p) < 10
      then (None, p\<lparr>priv_locations := priv_locations p @ [l]\<rparr>)
      else (Some (ValueError ''Maximum 10 locations allowed per pass''), p))"
    by (simp add: setattr_def startswith_underscore_def add_location_Location)
  have 4: "setattr store ''locations'' (VList xs) p =
     ([deprecated ''locations'' ''add_location''], add_each add_location xs p)" for xs
    by (simp add: setattr_def startswith_underscore_def)
  have 5: "setattr store ''ibeacons'' VNone p = ([deprecated ''ibeacons'' ''add_beacon''], None, p)"
    by (simp add: setattr_def startswith_underscore_def)
  have 6: "setattr store ''ibeacons'' (VIBeacon b') p =
     ([deprecated ''ibeacons'' ''add_beacon''],
      if length (priv_beacons p) < 10
      then (None, p\<lparr>priv_beacons := priv_beacons p @ [b']\<rparr>)
      else (Some (ValueError ''Maximum 10 beacons allowed per pass''), p))"
    by (simp add: setattr_def startswith_underscore_def add_beacon_IBeacon)
  have 7: "setattr store ''ibeacons'' (VList xs) p =
     ([deprecated ''ibeacons'' ''add_beacon''], add_each add_beacon xs p)" for xs
    by (simp add: setattr_def startswith_underscore_def)
  have 8: "setattr store ''relevant_date'' v p =
     ([deprecated ''relevant_date'' ''add_relevant_date''],
      case v of
        VNone \<Rightarrow> (None, p)
      | VRelevantDate rd \<Rightarrow> (None, p\<lparr>priv_relevant_dates := priv_relevant_dates p @ [rd]\<rparr>)
      | VStr s \<Rightarrow>
          if s = [] then (Some missing_argument_error, p)
          else (None, p\<lparr>priv_relevant_dates := priv_relevant_dates p
                            @ [\<lparr>date = Some s, startDate = None, endDate = None\<rparr>]\<rparr>)
      | _ \<Rightarrow> (Some (TypeError (''date must be a RelevantDate instance or string, got ''
                                 @ type_name v)), p))"
    by (cases v)
       (simp_all add: setattr_def startswith_underscore_def add_relevant_date_def
          RelevantDate_init_def)
  have 10: "setattr store ''locations'' v p =
     ([deprecated ''locations'' ''add_location''],
      case v of
        VNone \<Rightarrow> (None, p)
      | VList xs \<Rightarrow> add_each add_location xs p
      | VLocation x \<Rightarrow>
          if length (priv_locations p) < 10
          then (None, p\<lparr>priv_locations := priv_locations p @ [x]\<rparr>)
          else (Some (ValueError ''Maximum 10 locations allowed per pass''), p)
      | _ \<Rightarrow> (Some (TypeError (''location must be a Location instance, got '' @ type_name v)), p))"
    by (cases v)
       (simp_all add: setattr_def startswith_underscore_def add_location_def)
  have 11: "setattr store ''ibeacons'' v p =
     ([deprecated ''ibeacons'' ''add_beacon''],
      case v of
        VNone \<Rightarrow> (None, p)
      | VList xs \<Rightarrow> add_each add_beacon xs p
      | VIBeacon x \<Rightarrow>
          if length (priv_beacons p) < 10
          then (None, p\<lparr>priv_beacons := priv_beacons p @ [x]\<rparr>)
          else (Some (ValueError ''Maximum 10 beacons allowed per pass''), p)
      | _ \<Rightarrow> (Some (TypeError (''beacon must be an IBeacon instance, got '' @ type_name v)), p))"
    by (cases v)
       (simp_all add: setattr_def startswith_underscore_def add_beacon_def)
  have 12: "add_location v p =
     (case v of
        VLocation x \<Rightarrow>
          if length (priv_locations p) < 10
          then Inr (p\<lparr>priv_locations := priv_locations p @ [x]\<rparr>)
          else Inl (ValueError ''Maximum 10 locations allowed per pass'')
      | _ \<Rightarrow> Inl (TypeError (''location must be a Location instance, got '' @ type_name v)))"
    by (cases v) (simp_all add: add_location_def)
  have 13: "add_beacon v p =
     (case v of
        VIBeacon x \<Rightarrow>
          if length (priv_beacons p) < 10
          then Inr (p\<lparr>priv_beacons := priv_beacons p @ [x]\<rparr>)
          else Inl (ValueError ''Maximum 10 beacons allowed per pass'')
      | _ \<Rightarrow> Inl (TypeError (''beacon must be an IBeacon instance, got '' @ type_name v)))"
    by (cases v) (simp_all add: add_beacon_def)
  have 14: "add_each add_location (x # xs) p =
     (case add_location x p of Inl e \<Rightarrow> (Some e, p) | Inr p' \<Rightarrow> add_each add_location xs p')"
    "add_each add_beacon (x # xs) p =
     (case add_beacon x p of Inl e \<Rightarrow> (Some e, p) | Inr p' \<Rightarrow> add_each add_beacon xs p')"
    "add_each add_location [] p = (None, p)" "add_each add_beacon [] p = (None, p)"
    by simp_all
  have 9: "name \<notin> {''barcode'', ''locations'', ''ibeacons'', ''relevant_date''} \<longrightarrow>
      setattr store name v p = ([], None, store name v p)"
    by (simp add: setattr_def)
  have 15: "setattr store ''locations'' (VList (map VLocation ls)) p =
     ([deprecated ''locations'' ''add_location''],
      if ls = [] \<or> length (priv_locations p) + length ls \<le> 10
      then (None, p\<lparr>priv_locations := priv_locations p @ ls\<rparr>)
      else (Some (ValueError ''Maximum 10 locations allowed per pass''),
            p\<lparr>priv_locations := priv_locations p @ take (10 - length (priv_locations p)) ls\<rparr>))"
    unfolding 4 add_each_locations by simp
  have 16: "setattr store ''ibeacons'' (VList (map VIBeacon bs)) p =
     ([deprecated ''ibeacons'' ''add_beacon''],
      if bs = [] \<or> length (priv_beacons p) + length bs \<le> 10
      then (None, p\<lparr>priv_beacons := priv_beacons p @ bs\<rparr>)
      else (Some (ValueError ''Maximum 10 beacons allowed per pass''),
            p\<lparr>priv_beacons := priv_beacons p @ take (10 - length (priv_beacons p)) bs\<rparr>))"
    unfolding 7 add_each_beacons by simp
  note all = 1 2 3 4 [of vs] 15 5 6 7 [of vs] 16 8 10 11 12 13 14 9
  show ?thesis
    by (intro conjI) (rule all)+
qed

theorem setattr_deprecated_names_witness:
  "setattr (\<lambda>n v q. if n = ''serial_number'' then (case v of VStr s \<Rightarrow> q\<lparr>serial_number := s\<rparr> | _ \<Rightarrow> q) else q)
     ''serial_number'' (VStr ''COUP-12345'') example_pass =
     ([], None, example_pass\<lparr>serial_number := ''COUP-12345''\<rparr>) \<and>
   setattr (\<lambda>n v q. if n = ''serial_number'' then (case v of VStr s \<Rightarrow> q\<lparr>serial_number := s\<rparr> | _ \<Rightarrow> q) else q)
     ''barcode'' (VStr ''COUP-12345'') example_pass =
     ([deprecated ''barcode'' ''add_barcode''],
      Some (TypeError ''barcode must be a Barcode instance, got str''), example_pass) \<and>
   setattr (\<lambda>n v q. q) ''barcode'' VNone example_pass =
     ([deprecated ''barcode'' ''add_barcode''], None, example_pass) \<and>
   setattr (\<lambda>n v q. if n = ''serial_number'' then (case v of VStr s \<Rightarrow> q\<lparr>serial_number := s\<rparr> | _ \<Rightarrow> q) else q)
     ''locations'' (VStr ''COUP-12345'') example_pass =
     ([deprecated ''locations'' ''add_location''],
      Some (TypeError ''location must be a Location instance, got str''), example_pass) \<and>
   setattr (\<lambda>n v q. if n = ''serial_number'' then (case v of VStr s \<Rightarrow> q\<lparr>serial_number := s\<rparr> | _ \<Rightarrow> q) else q)
     ''ibeacons'' (VStr ''COUP-12345'') example_pass =
     ([deprecated ''ibeacons'' ''add_beacon''],
      Some (TypeError ''beacon must be an IBeacon instance, got str''), example_pass) \<and>
   ''serial_number'' \<notin> {''barcode'', ''locations'', ''ibeacons'', ''relevant_date''}"
  using setattr_deprecated_names
          [where store = "\<lambda>n v q. if n = ''serial_number''
                                   then (case v of VStr s \<Rightarrow> q\<lparr>serial_number := s\<rparr> | _ \<Rightarrow> q) else q"
             and name = "''serial_number''" and v = "VStr ''COUP-12345''" and p = example_pass]
        setattr_deprecated_names
          [where store = "\<lambda>n v q. q" and v = VNone and p = example_pass]
  by simp

text \<open>
  C10 as stated, with list values appended element by element for \<open>relevant_date\<close> too,
  fails: \<open>p.relevant_date = ["2026-03-15T19:00:00-08:00"]\<close> raises \<open>TypeError\<close> and
  attaches nothing, where adding the element would have attached one date.
\<close>

theorem setattr_relevant_date_list_counterexample:
  "setattr (\<lambda>n v q. q) ''relevant_date'' (VList [VStr ''2026-03-15T19:00:00-08:00'']) example_pass =
     ([deprecated ''relevant_date'' ''add_relevant_date''],
      Some (TypeError ''date must be a RelevantDate instance or string, got list''),
      example_pass) \<and>
   priv_relevant_dates example_pass = [] \<and>
   add_each add_relevant_date [VStr ''2026-03-15T19:00:00-08:00''] example_pass =
     (None, example_pass\<lparr>priv_relevant_dates :=
        [\<lparr>date = Some ''2026-03-15T19:00:00-08:00'', startDate = None, endDate = None\<rparr>]\<rparr>)"
  by (simp add: setattr_def startswith_underscore_def add_relevant_date_def RelevantDate_init_def
        example_pass_empty)

section \<open>Properties of \<open>create\<close>\<close>

text \<open>
  C3. When the serial number or the description is empty, \<open>create\<close> raises the
  required-field error at once: the pass is returned as it was (no digest stored), the
  signer was called with nothing, and the result is the same whatever the encoder, the
  digest, the files and the signer are, so none of them was consulted. When both are
  non-empty (and \<open>json_dict\<close> returns), the validation passes and the assembly runs:
  the document is encoded, its digest and the assets' are stored in the pass, the
  manifest is handed to the signing step, and its signature goes into the archive.
\<close>

theorem create_validates_required_fields_first:
  "(serial_number p = [] \<longrightarrow>
      create rt c k w pw p = (Inl (ValueError ''serial_number is required''), p, [])) \<and>
   (serial_number p \<noteq> [] \<and> description p = [] \<longrightarrow>
      create rt c k w pw p = (Inl (ValueError ''description is required''), p, [])) \<and>
   (serial_number p = [] \<or> description p = [] \<longrightarrow>
      create rt c k w pw p = create rt' c' k' w' pw' p) \<and>
   (serial_number p \<noteq> [] \<and> description p \<noteq> [] \<and> json_dict p = Inr d \<longrightarrow>
      (let pass_json = json_dumps rt (JDict d);
           h = store_hashes rt pass_json (priv_files p) (priv_hashes p);
           manifest = json_dumps rt (JDict (map (\<lambda>(k, v). (k, JStr v)) h))
       in create rt c k w pw p =
            (case create_signature_crypto rt manifest c k w pw of
               (Inl e, calls) \<Rightarrow> (Inl e, p\<lparr>priv_hashes := h\<rparr>, calls)
             | (Inr signature, calls) \<Rightarrow>
                 (Inr (create_zip pass_json manifest signature (p\<lparr>priv_hashes := h\<rparr>)),
                  p\<lparr>priv_hashes := h\<rparr>, calls))))"
  by (simp add: create_def create_pass_json_def create_manifest_def Let_def)

theorem create_validates_required_fields_first_witness:
  "create example_runtime ''certificate.pem'' ''key.pem'' ''wwdr.pem'' ''password'' example_pass =
     (Inl (ValueError ''serial_number is required''), example_pass, []) \<and>
   serial_number example_pass = [] \<and>
   snd (snd (create example_runtime ''certificate.pem'' ''key.pem'' ''wwdr.pem'' ''password''
               (example_pass\<lparr>serial_number := ''COUP-12345'', description := ''20% off coupon''\<rparr>)))
     = [[0x7B, 0x7D]] \<and>
   (\<exists>archive. fst (create example_runtime ''certificate.pem'' ''key.pem'' ''wwdr.pem'' ''password''
               (example_pass\<lparr>serial_number := ''COUP-12345'', description := ''20% off coupon''\<rparr>))
      = Inr archive)"
proof -
  let ?p2 = "example_pass\<lparr>serial_number := ''COUP-12345'', description := ''20% off coupon''\<rparr>"
  have "\<exists>d. json_dict ?p2 = Inr d"
    by (rule json_dict_returns) (simp add: example_pass_empty)
  then obtain d where d: "json_dict ?p2 = Inr d" ..
  have j: "json_dumps example_runtime x = ''{}''" for x
    by (simp add: example_runtime_def)
  show ?thesis
    using create_validates_required_fields_first
            [of example_pass example_runtime "''certificate.pem''" "''key.pem''" "''wwdr.pem''"
                "''password''"]
          create_validates_required_fields_first
            [of ?p2 example_runtime "''certificate.pem''" "''key.pem''" "''wwdr.pem''"
                "''password''" _ _ _ _ _ d]
          d
    by (simp add: example_pass_fields Let_def j example_signature)
qed

text \<open>
  C2. Assembling twice without a mutation in between gives the same results: the pass
  left by a first \<open>create\<close> encodes to the same canonical document, building the
  manifest on the pass a first build left gives the same manifest and the same digests,
  in the same order, and a second \<open>create\<close> returns what the first returned (archive
  or exception, pass and signer calls).
\<close>

theorem assembling_twice_is_deterministic:
  "create_pass_json rt (fst (snd (create rt c k w pw p))) = create_pass_json rt p \<and>
   create_manifest rt pass_json (snd (create_manifest rt pass_json p))
     = create_manifest rt pass_json p \<and>
   create rt c k w pw (fst (snd (create rt c k w pw p))) = create rt c k w pw p"
proof -
  from create_state [of rt c k w pw p]
  have "create_pass_json rt (fst (snd (create rt c k w pw p))) = create_pass_json rt p \<and>
        create rt c k w pw (fst (snd (create rt c k w pw p))) = create rt c k w pw p"
  proof
    assume "fst (snd (create rt c k w pw p)) = p"
    then show ?thesis by simp
  next
    assume "\<exists>pj. create_pass_json rt p = Inr pj \<and> serial_number p \<noteq> [] \<and> description p \<noteq> [] \<and>
         fst (snd (create rt c k w pw p)) = snd (create_manifest rt pj p)"
    then obtain pj where pj: "create_pass_json rt p = Inr pj"
      and s: "serial_number p \<noteq> []" and d: "description p \<noteq> []"
      and st: "fst (snd (create rt c k w pw p)) = snd (create_manifest rt pj p)" by blast
    let ?p1 = "snd (create_manifest rt pj p)"
    have m: "create_manifest rt pj ?p1 = create_manifest rt pj p"
      by (rule create_manifest_twice)
    have z: "create_zip pj a b ?p1 = create_zip pj a b p" for a b
      by (simp add: create_zip_def create_manifest_fields)
    have "create rt c k w pw ?p1 = create rt c k w pw p"
      unfolding create_def [of rt c k w pw ?p1] create_def [of rt c k w pw p]
      by (simp add: create_manifest_fields pj s d m split: prod.splits sum.splits)
    with st show ?thesis by (simp add: create_manifest_fields)
  qed
  then show ?thesis by (simp add: create_manifest_twice)
qed


text \<open>
  C7, as the code has it. On a pass whose files have distinct names (they are the keys
  of a dictionary) and whose digest dictionary holds no name but \<open>pass.json\<close> and
  names of its files (so it is on a new pass, after \<open>add_file\<close> and after an assembly:
  \<open>manifest_wellformed_preserved\<close>, \<open>manifest_wellformed_create_manifest\<close>), the
  manifest is the serialized digest dictionary; its keys are exactly \<open>pass.json\<close> and
  the names of the files; the entry of every file is the digest of that file's bytes
  alone; and the entry \<open>pass.json\<close> is the digest of the UTF-8 encoding of the
  document, unless a file is itself named \<open>pass.json\<close>.
\<close>

theorem create_manifest_digests:
  assumes "distinct (dict_keys (priv_files p))"
    and "set (dict_keys (priv_hashes p)) \<subseteq> insert ''pass.json'' (set (dict_keys (priv_files p)))"
  shows "fst (create_manifest rt pass_json p) =
           json_dumps rt (JDict (map (\<lambda>(k, v). (k, JStr v))
             (priv_hashes (snd (create_manifest rt pass_json p))))) \<and>
         set (dict_keys (priv_hashes (snd (create_manifest rt pass_json p)))) =
           insert ''pass.json'' (set (dict_keys (priv_files p))) \<and>
         (\<forall>name data. dict_get (priv_files p) name = Some data \<longrightarrow>
            dict_get (priv_hashes (snd (create_manifest rt pass_json p))) name
              = Some (sha1_hexdigest rt data)) \<and>
         (''pass.json'' \<notin> set (dict_keys (priv_files p)) \<longrightarrow>
            dict_get (priv_hashes (snd (create_manifest rt pass_json p))) ''pass.json''
              = Some (sha1_hexdigest rt (encode_utf8 pass_json)))"
proof -
  have h: "priv_hashes (snd (create_manifest rt pass_json p))
           = store_hashes rt pass_json (priv_files p) (priv_hashes p)"
    by (simp add: create_manifest_def Let_def)
  have 1: "fst (create_manifest rt pass_json p) =
           json_dumps rt (JDict (map (\<lambda>(k, v). (k, JStr v))
             (priv_hashes (snd (create_manifest rt pass_json p)))))"
    by (simp add: create_manifest_def Let_def)
  have 2: "set (dict_keys (priv_hashes (snd (create_manifest rt pass_json p)))) =
           insert ''pass.json'' (set (dict_keys (priv_files p)))"
    unfolding h store_hashes_keys using assms(2) by auto
  have 3: "\<forall>name data. dict_get (priv_files p) name = Some data \<longrightarrow>
            dict_get (priv_hashes (snd (create_manifest rt pass_json p))) name
              = Some (sha1_hexdigest rt data)"
    unfolding h using store_hashes_asset [OF assms(1)] by blast
  have 4: "''pass.json'' \<notin> set (dict_keys (priv_files p)) \<longrightarrow>
            dict_get (priv_hashes (snd (create_manifest rt pass_json p))) ''pass.json''
              = Some (sha1_hexdigest rt (encode_utf8 pass_json))"
    unfolding h using store_hashes_document by blast
  from 1 2 3 4 show ?thesis by blast
qed


theorem create_manifest_digests_witness:
  "distinct (dict_keys (priv_files (add_file ''icon.png'' [0x69, 0x63, 0x6F, 0x6E] example_pass))) \<and>
   ''pass.json'' \<notin> set (dict_keys (priv_files (add_file ''icon.png'' [0x69, 0x63, 0x6F, 0x6E] example_pass))) \<and>
   dict_get (priv_files (add_file ''icon.png'' [0x69, 0x63, 0x6F, 0x6E] example_pass)) ''icon.png''
     = Some [0x69, 0x63, 0x6F, 0x6E] \<and>
   dict_get (priv_hashes (snd (create_manifest example_runtime ''{}''
      (add_file ''icon.png'' [0x69, 0x63, 0x6F, 0x6E] example_pass)))) ''icon.png''
     = Some ''f8995ba5891b07e328c60d6bd6c10159878c5a13'' \<and>
   dict_get (priv_hashes (snd (create_manifest example_runtime ''{}''
      (add_file ''icon.png'' [0x69, 0x63, 0x6F, 0x6E] example_pass)))) ''pass.json''
     = Some ''bf21a9e8fbc5a3846fb05b4fa0859e0917b2202f'' \<and>
   set (dict_keys (priv_hashes (snd (create_manifest example_runtime ''{}''
      (add_file ''icon.png'' [0x69, 0x63, 0x6F, 0x6E] example_pass))))) = {''pass.json'', ''icon.png''}"
proof -
  let ?p = "add_file ''icon.png'' [0x69, 0x63, 0x6F, 0x6E] example_pass"
  have f: "priv_files ?p = [(''icon.png'', [0x69, 0x63, 0x6F, 0x6E])]"
    and hs: "priv_hashes ?p = []"
    by (simp_all add: add_file_def example_pass_empty dict_set_def)
  have d: "distinct (dict_keys (priv_files ?p))" by (simp add: f dict_keys_def)
  have s: "set (dict_keys (priv_hashes ?p)) \<subseteq> insert ''pass.json'' (set (dict_keys (priv_files ?p)))"
    by (simp add: hs dict_keys_def)
  have g: "dict_get (priv_files ?p) ''icon.png'' = Some [0x69, 0x63, 0x6F, 0x6E]"
    by (simp add: f dict_get_def)
  have n: "''pass.json'' \<notin> set (dict_keys (priv_files ?p))" by (simp add: f dict_keys_def)
  have e: "sha1_hexdigest example_runtime [0x69, 0x63, 0x6F, 0x6E] = ''f8995ba5891b07e328c60d6bd6c10159878c5a13''"
    "sha1_hexdigest example_runtime (encode_utf8 ''{}'') = ''bf21a9e8fbc5a3846fb05b4fa0859e0917b2202f''"
    by (simp_all add: example_runtime_def example_sha1_def encode_utf8_braces)
  from create_manifest_digests [OF d s, of example_runtime "''{}''"] g n
  have "dict_get (priv_hashes (snd (create_manifest example_runtime ''{}'' ?p))) ''icon.png''
          = Some ''f8995ba5891b07e328c60d6bd6c10159878c5a13''"
    and "dict_get (priv_hashes (snd (create_manifest example_runtime ''{}'' ?p))) ''pass.json''
          = Some ''bf21a9e8fbc5a3846fb05b4fa0859e0917b2202f''"
    and "set (dict_keys (priv_hashes (snd (create_manifest example_runtime ''{}'' ?p))))
          = insert ''pass.json'' (set (dict_keys (priv_files ?p)))"
    by (simp_all add: e)
  with d n g show ?thesis by (simp add: f dict_keys_def)
qed


text \<open>
  C7 as stated, for every attached asset, fails for an asset named \<open>pass.json\<close>: its
  digest is stored after the document's, under the same key, so the manifest's entry
  \<open>pass.json\<close> is the digest of the asset (here \<open>b"x"\<close>), not of the document (here
  \<open>{}\<close>).
\<close>

theorem create_manifest_reserved_name_counterexample:
  "dict_get (priv_hashes (snd (create_manifest example_runtime ''{}''
      (add_file ''pass.json'' [0x78] example_pass)))) ''pass.json''
     = Some ''11f6ad8ec52a2984abaafd7c3b516503785c2072'' \<and>
   sha1_hexdigest example_runtime [0x78] = ''11f6ad8ec52a2984abaafd7c3b516503785c2072'' \<and>
   sha1_hexdigest example_runtime (encode_utf8 ''{}'') = ''bf21a9e8fbc5a3846fb05b4fa0859e0917b2202f'' \<and>
   dict_get (priv_hashes (snd (create_manifest example_runtime ''{}''
      (add_file ''pass.json'' [0x78] example_pass)))) ''pass.json''
     \<noteq> Some (sha1_hexdigest example_runtime (encode_utf8 ''{}''))"
  by (simp add: create_manifest_def Let_def store_hashes_def add_file_def example_pass_empty
        dict_set_def example_runtime_def example_sha1_def encode_utf8_braces dict_get_def)

end
